theory Spec2Isabelle
  imports Main "HOL-Library.Word" "HOL-Library.AList" "HOL-Library.Sublist"
    "HOL-Library.Char_ord" "HOL-Library.List_Lexorder"
begin

section \<open>Library functions the program calls\<close>

text \<open>
  The program (package \<open>cmd\<close>, the worker-pool variant with \<open>move\<close>) is Go. The
  functions of Go's standard library that its decisions depend on are written
  out here for a Unix system: paths are byte strings separated by \<open>/\<close>, and a
  \<open>string\<close> is the list of the bytes of the Go string.
\<close>

subsection \<open>strings and path/filepath\<close>

definition sep :: char where
  "sep = CHR ''/''"

text \<open>\<open>strings.Join(elems, "/")\<close>.\<close>

fun joinSep :: "string list \<Rightarrow> string" where
  "joinSep [] = []"
| "joinSep [e] = e"
| "joinSep (e # es) = e @ sep # joinSep es"

text \<open>\<open>strings.Split(s, "/")\<close>: the elements between separators, empty ones kept.\<close>

fun splitSep :: "string \<Rightarrow> string list" where
  "splitSep [] = [[]]"
| "splitSep (c # cs) =
     (if c = sep then [] # splitSep cs
      else (case splitSep cs of
              [] \<Rightarrow> [[c]]
            | e # es \<Rightarrow> (c # e) # es))"

text \<open>
  \<open>filepath.Clean\<close>: separators are merged, \<open>.\<close> elements dropped, an inner
  \<open>..\<close> removes the element before it, a \<open>..\<close> at the root is dropped, and
  the empty result is \<open>.\<close>. \<open>cleanElems\<close> keeps the elements written so far as a
  stack, the last one first.
\<close>

fun cleanElems :: "bool \<Rightarrow> string list \<Rightarrow> string list \<Rightarrow> string list" where
  "cleanElems rooted out [] = rev out"
| "cleanElems rooted out (e # es) =
     (if e = [] \<or> e = ''.'' then cleanElems rooted out es
      else if e = ''..'' then
        (case out of
           [] \<Rightarrow> if rooted then cleanElems rooted [] es
                 else cleanElems rooted [''..''] es
         | a # out' \<Rightarrow> if a = ''..'' then cleanElems rooted (''..'' # out) es
                       else cleanElems rooted out' es)
      else cleanElems rooted (e # out) es)"

definition Clean :: "string \<Rightarrow> string" where
  "Clean path =
     (if path = [] then ''.''
      else
        let rooted = (hd path = sep);
            body = joinSep (cleanElems rooted [] (splitSep path))
        in if rooted then sep # body
           else if body = [] then ''.'' else body)"

text \<open>\<open>filepath.Join\<close>: leading empty elements are ignored, the rest is joined
  with \<open>/\<close> and cleaned; with no non-empty element the result is empty.\<close>

definition Join :: "string list \<Rightarrow> string" where
  "Join elem =
     (case dropWhile (\<lambda>e. e = []) elem of
        [] \<Rightarrow> []
      | e # es \<Rightarrow> Clean (joinSep (e # es)))"

text \<open>\<open>filepath.Base\<close>: the last element of the path, after trailing
  separators are removed.\<close>

definition Base :: "string \<Rightarrow> string" where
  "Base path =
     (if path = [] then ''.''
      else
        let p = rev (dropWhile (\<lambda>c. c = sep) (rev path));
            e = rev (takeWhile (\<lambda>c. c \<noteq> sep) (rev p))
        in if e = [] then [sep] else e)"

text \<open>\<open>filepath.Ext\<close>: the suffix of the last element from its last dot on.\<close>

definition Ext :: "string \<Rightarrow> string" where
  "Ext path =
     (let e = rev (takeWhile (\<lambda>c. c \<noteq> sep) (rev path))
      in if CHR ''.'' \<in> set e
         then CHR ''.'' # rev (takeWhile (\<lambda>c. c \<noteq> CHR ''.'') (rev e))
         else [])"

text \<open>
  \<open>strings.ToLower\<close>, on the bytes of the UTF-8 string. The ASCII capitals
  become small letters. Two characters outside ASCII have an ASCII letter as
  their lower case: the Kelvin sign U+212A (bytes E2 84 AA) becomes \<open>k\<close> and
  the dotted capital I U+0130 (bytes C4 B0) becomes \<open>i\<close>. The bytes of every
  other character are left as they are: Go maps other capitals to characters
  outside ASCII, which changes the result but not whether it is one of the
  ASCII extensions of the allow-list, the only use the program makes of it.
\<close>

definition lowerChar :: "char \<Rightarrow> char" where
  "lowerChar c =
     (let n = (of_char c :: nat)
      in if 65 \<le> n \<and> n \<le> 90 then char_of (n + 32) else c)"

fun ToLower :: "string \<Rightarrow> string" where
  "ToLower (a # b # c # cs) =
     (if a = CHR 0xE2 \<and> b = CHR 0x84 \<and> c = CHR 0xAA then CHR ''k'' # ToLower cs
      else if a = CHR 0xC4 \<and> b = CHR 0xB0 then CHR ''i'' # ToLower (c # cs)
      else lowerChar a # ToLower (b # c # cs))"
| "ToLower [a, b] =
     (if a = CHR 0xC4 \<and> b = CHR 0xB0 then [CHR ''i'']
      else [lowerChar a, lowerChar b])"
| "ToLower [a] = [lowerChar a]"
| "ToLower [] = []"

text \<open>\<open>strings.ReplaceAll(s, ":", "")\<close>.\<close>

definition removeColons :: "string \<Rightarrow> string" where
  "removeColons s = filter (\<lambda>c. c \<noteq> CHR '':'') s"

subsection \<open>time\<close>

text \<open>
  A \<open>time.Time\<close> is kept as the civil date and clock time that \<open>Format\<close> prints
  for it (in the time's own location); nanoseconds and the location are not
  printed by the layout the program uses and are left out.
\<close>

record gotime =
  t_year :: int
  t_month :: nat
  t_day :: nat
  t_hour :: nat
  t_min :: nat
  t_sec :: nat

text \<open>The zero \<open>time.Time{}\<close>: January 1, year 1, 00:00:00.\<close>

definition zeroTime :: gotime where
  "zeroTime = \<lparr>t_year = 1, t_month = 1, t_day = 1, t_hour = 0, t_min = 0, t_sec = 0\<rparr>"

definition digitChar :: "nat \<Rightarrow> char" where
  "digitChar d = char_of (48 + d mod 10)"

fun decimal :: "nat \<Rightarrow> string" where
  "decimal n = (if n < 10 then [digitChar n] else decimal (n div 10) @ [digitChar n])"

declare decimal.simps [simp del]

text \<open>\<open>appendInt(b, x, width)\<close> of package time: the decimal digits of \<open>x\<close>,
  padded with zeros on the left to \<open>width\<close>, after a minus sign when \<open>x\<close> is
  negative.\<close>

definition appendInt :: "int \<Rightarrow> nat \<Rightarrow> string" where
  "appendInt x width =
     (let ds = decimal (nat \<bar>x\<bar>);
          padded = replicate (width - length ds) CHR ''0'' @ ds
      in if x < 0 then CHR ''-'' # padded else padded)"

text \<open>\<open>t.Format(timeFormat)\<close> for \<open>timeFormat = "20060102T150405"\<close>: the
  chunks of the layout are the long year, the zero-padded month and day, the
  literal \<open>T\<close>, and the hour, zero-padded minute and second.\<close>

definition timeFormatLen :: nat where
  "timeFormatLen = 15"

definition Format :: "gotime \<Rightarrow> string" where
  "Format t =
     appendInt (t_year t) 4 @ appendInt (int (t_month t)) 2 @ appendInt (int (t_day t)) 2
     @ ''T'' @ appendInt (int (t_hour t)) 2 @ appendInt (int (t_min t)) 2
     @ appendInt (int (t_sec t)) 2"

definition isDigit :: "string \<Rightarrow> nat \<Rightarrow> bool" where
  "isDigit s i =
     (i < length s \<and> 48 \<le> (of_char (s ! i) :: nat) \<and> (of_char (s ! i) :: nat) \<le> 57)"

definition digitVal :: "char \<Rightarrow> nat" where
  "digitVal c = (of_char c :: nat) - 48"

text \<open>\<open>getnum(s, fixed)\<close>: one or two leading digits; with \<open>fixed\<close> there must
  be two.\<close>

definition getnum :: "string \<Rightarrow> bool \<Rightarrow> (nat \<times> string) option" where
  "getnum s fixed =
     (if \<not> isDigit s 0 then None
      else if \<not> isDigit s 1 then
        (if fixed then None else Some (digitVal (s ! 0), drop 1 s))
      else Some (digitVal (s ! 0) * 10 + digitVal (s ! 1), drop 2 s))"

text \<open>The long year: four bytes, all digits.\<close>

definition getyear :: "string \<Rightarrow> (nat \<times> string) option" where
  "getyear s =
     (if length s < 4 \<or> \<not> isDigit s 0 then None
      else if isDigit s 1 \<and> isDigit s 2 \<and> isDigit s 3
        then Some (digitVal (s ! 0) * 1000 + digitVal (s ! 1) * 100
                   + digitVal (s ! 2) * 10 + digitVal (s ! 3), drop 4 s)
        else None)"

definition isLeap :: "nat \<Rightarrow> bool" where
  "isLeap y = (y mod 4 = 0 \<and> (y mod 100 \<noteq> 0 \<or> y mod 400 = 0))"

definition daysIn :: "nat \<Rightarrow> nat \<Rightarrow> nat" where
  "daysIn m y =
     (if m = 2 then (if isLeap y then 29 else 28)
      else if m = 4 \<or> m = 6 \<or> m = 9 \<or> m = 11 then 30 else 31)"

text \<open>
  \<open>time.Parse(timeFormat, value)\<close>: the chunks are read in the layout's order;
  the literal \<open>T\<close> must match; the hour is read with \<open>getnum(value, false)\<close>, the
  other two-digit fields with \<open>fixed\<close>; a field out of range, a day the month
  does not have, or text left over is an error (\<open>None\<close>).
\<close>

definition Parse :: "string \<Rightarrow> gotime option" where
  "Parse v0 =
     (case getyear v0 of None \<Rightarrow> None | Some (y, v1) \<Rightarrow>
     (case getnum v1 True of None \<Rightarrow> None | Some (mo, v2) \<Rightarrow>
       (if mo = 0 \<or> 12 < mo then None else
     (case getnum v2 True of None \<Rightarrow> None | Some (d, v3) \<Rightarrow>
       (if v3 = [] \<or> hd v3 \<noteq> CHR ''T'' then None else
     (case getnum (tl v3) False of None \<Rightarrow> None | Some (h, v4) \<Rightarrow>
       (if 24 \<le> h then None else
     (case getnum v4 True of None \<Rightarrow> None | Some (mi, v5) \<Rightarrow>
       (if 60 \<le> mi then None else
     (case getnum v5 True of None \<Rightarrow> None | Some (s, v6) \<Rightarrow>
       (if 60 \<le> s then None
        else if v6 \<noteq> [] then None
        else if d < 1 \<or> daysIn mo y < d then None
        else Some \<lparr>t_year = int y, t_month = mo, t_day = d,
                    t_hour = h, t_min = mi, t_sec = s\<rparr>)))))))))))"


section \<open>The file system and the clock\<close>

text \<open>
  What the operating system does is not in the program's source; it is modelled
  here as far as the program's calls observe it. Directory entries map a path
  (clean and absolute, as the program builds them with \<open>filepath.Join\<close> from
  the absolute source and destination folders) to an inode number, so two
  entries with one number are hard links to one file. Symbolic links are not
  modelled. Each call either fails with an error and leaves the file system as
  it was, or succeeds with the effect written below.
\<close>

datatype error =
    ENOENT | EACCES | EEXIST | EISDIR | ENOTDIR | ENOTEMPTY | EXDEV | EPERM | ENOSPC | EIO
  | NonRegularSource string
  | NonRegularDestination string
  | TimeNotCalculated string

text \<open>The type bits of a file's mode: a regular file, a directory, or a device
  file, whose reads return its bytes at once. (A named pipe, whose read waits
  for a writer, is not modelled.)\<close>

datatype ftype = Regular | Directory | Device

record node =
  n_type :: ftype
  n_dev :: nat
  n_bytes :: string
  n_read :: bool
  n_write :: bool
  n_birth :: "gotime option"
  n_mtime :: gotime

text \<open>
  \<open>n_read\<close> and \<open>n_write\<close> say whether the process may open the file for
  reading and for writing (for a directory: list it, and add or remove
  entries). \<open>fs_denied\<close> lists paths that cannot be looked up at all (a
  directory above them cannot be searched). \<open>fs_space\<close> is the number of bytes
  a write can store before the volume is full. \<open>fs_clock\<close> is the wall clock.
\<close>

record world =
  fs_names :: "(string \<times> nat) list"
  fs_nodes :: "(nat \<times> node) list"
  fs_denied :: "string list"
  fs_space :: nat
  fs_clock :: gotime

definition resolve :: "world \<Rightarrow> string \<Rightarrow> error + (nat \<times> node)" where
  "resolve w p =
     (if p \<in> set (fs_denied w) then Inl EACCES
      else case map_of (fs_names w) p of
             None \<Rightarrow> Inl ENOENT
           | Some i \<Rightarrow> (case map_of (fs_nodes w) i of
                          None \<Rightarrow> Inl EIO
                        | Some n \<Rightarrow> Inr (i, n)))"

text \<open>The directory a path's entry lives in.\<close>

definition parentDir :: "string \<Rightarrow> string" where
  "parentDir p =
     (let d = rev (drop 1 (dropWhile (\<lambda>c. c \<noteq> sep) (rev p)))
      in if d = [] then [sep] else d)"

definition setNode :: "world \<Rightarrow> nat \<Rightarrow> node \<Rightarrow> world" where
  "setNode w i n = w\<lparr>fs_nodes := AList.update i n (fs_nodes w)\<rparr>"

definition freshIno :: "world \<Rightarrow> nat" where
  "freshIno w = Suc (fold max (map fst (fs_nodes w) @ map snd (fs_names w)) 0)"

text \<open>\<open>os.Stat\<close>; the \<open>FileInfo\<close> is the inode number with the inode.\<close>

definition osStat :: "world \<Rightarrow> string \<Rightarrow> error + (nat \<times> node)" where
  "osStat w p = resolve w p"

definition IsRegular :: "nat \<times> node \<Rightarrow> bool" where
  "IsRegular fi = (n_type (snd fi) = Regular)"

definition SameFile :: "nat \<times> node \<Rightarrow> nat \<times> node \<Rightarrow> bool" where
  "SameFile a b = (n_dev (snd a) = n_dev (snd b) \<and> fst a = fst b)"

definition IsNotExist :: "error \<Rightarrow> bool" where
  "IsNotExist e = (e = ENOENT)"

text \<open>\<open>os.Open\<close>: an open file is its inode number; reads through it see the
  inode's bytes at the time of the read.\<close>

definition osOpen :: "world \<Rightarrow> string \<Rightarrow> error + nat" where
  "osOpen w p =
     (case resolve w p of
        Inl e \<Rightarrow> Inl e
      | Inr (i, n) \<Rightarrow> if n_read n then Inr i else Inl EACCES)"

text \<open>\<open>ioutil.ReadFile\<close>. A failure to open returns no data; reading a
  directory fails with no data read.\<close>

definition ReadFile :: "world \<Rightarrow> string \<Rightarrow> error + string" where
  "ReadFile w p =
     (case resolve w p of
        Inl e \<Rightarrow> Inl e
      | Inr (i, n) \<Rightarrow>
          if \<not> n_read n then Inl EACCES
          else if n_type n = Directory then Inl EISDIR
          else Inr (n_bytes n))"

text \<open>\<open>ioutil.ReadDir\<close>: the names in a directory, each with \<open>IsDir()\<close>,
  sorted by name (byte-wise, as Go compares strings).\<close>

definition entryIsDir :: "world \<Rightarrow> nat \<Rightarrow> bool" where
  "entryIsDir w i =
     (case map_of (fs_nodes w) i of None \<Rightarrow> False | Some n \<Rightarrow> n_type n = Directory)"

definition ReadDir :: "world \<Rightarrow> string \<Rightarrow> error + (string \<times> bool) list" where
  "ReadDir w d =
     (case resolve w d of
        Inl e \<Rightarrow> Inl e
      | Inr (i, n) \<Rightarrow>
          if n_type n \<noteq> Directory then Inl ENOTDIR
          else if \<not> n_read n then Inl EACCES
          else Inr (sort_key fst
                      (map (\<lambda>(q, j). (Base q, entryIsDir w j))
                         (filter (\<lambda>(q, j). parentDir q = d \<and> q \<noteq> d) (fs_names w)))))"

text \<open>\<open>os.Link(src, dst)\<close>: a new entry \<open>dst\<close> for the inode of \<open>src\<close>. It fails
  when \<open>dst\<close> exists, when its directory is missing, read-only or on another
  device, and for a directory.\<close>

definition osLink :: "world \<Rightarrow> string \<Rightarrow> string \<Rightarrow> error option \<times> world" where
  "osLink w src dst =
     (case resolve w src of
        Inl e \<Rightarrow> (Some e, w)
      | Inr (i, n) \<Rightarrow>
          if n_type n = Directory then (Some EPERM, w)
          else (case resolve w dst of
                  Inr fi \<Rightarrow> (Some EEXIST, w)
                | Inl e \<Rightarrow>
                    if e \<noteq> ENOENT then (Some e, w)
                    else (case resolve w (parentDir dst) of
                            Inl e' \<Rightarrow> (Some e', w)
                          | Inr (j, d) \<Rightarrow>
                              if n_type d \<noteq> Directory then (Some ENOTDIR, w)
                              else if \<not> n_write d then (Some EACCES, w)
                              else if n_dev d \<noteq> n_dev n then (Some EXDEV, w)
                              else (None, w\<lparr>fs_names := AList.update dst i (fs_names w)\<rparr>))))"

text \<open>\<open>os.Create(dst)\<close>: opens \<open>dst\<close> for writing; an existing file is
  truncated, a missing one is created as a new empty regular file.\<close>

definition osCreate :: "world \<Rightarrow> string \<Rightarrow> (error + nat) \<times> world" where
  "osCreate w dst =
     (case resolve w dst of
        Inr (i, n) \<Rightarrow>
          if n_type n = Directory then (Inl EISDIR, w)
          else if \<not> n_write n then (Inl EACCES, w)
          else (Inr i, setNode w i (n\<lparr>n_bytes := [], n_mtime := fs_clock w\<rparr>))
      | Inl e \<Rightarrow>
          if e \<noteq> ENOENT then (Inl e, w)
          else (case resolve w (parentDir dst) of
                  Inl e' \<Rightarrow> (Inl e', w)
                | Inr (j, d) \<Rightarrow>
                    if n_type d \<noteq> Directory then (Inl ENOTDIR, w)
                    else if \<not> n_write d then (Inl EACCES, w)
                    else
                      let i = freshIno w;
                          n = \<lparr>n_type = Regular, n_dev = n_dev d, n_bytes = [],
                               n_read = True, n_write = True,
                               n_birth = Some (fs_clock w), n_mtime = fs_clock w\<rparr>
                      in (Inr i, w\<lparr>fs_names := AList.update dst i (fs_names w),
                                   fs_nodes := AList.update i n (fs_nodes w)\<rparr>)))"

text \<open>\<open>io.Copy(out, in)\<close>: the bytes of \<open>in\<close> are written to \<open>out\<close>; when the
  volume fills up, what fitted stays written and the copy fails.\<close>

definition ioCopy :: "world \<Rightarrow> nat \<Rightarrow> nat \<Rightarrow> error option \<times> world" where
  "ioCopy w out inp =
     (case map_of (fs_nodes w) inp of
        None \<Rightarrow> (Some EIO, w)
      | Some src \<Rightarrow>
          if n_type src = Directory then (Some EISDIR, w)
          else (case map_of (fs_nodes w) out of
                  None \<Rightarrow> (Some EIO, w)
                | Some dstn \<Rightarrow>
                    let w' = setNode w out
                               (dstn\<lparr>n_bytes := take (fs_space w) (n_bytes src),
                                      n_mtime := fs_clock w\<rparr>)
                    in (if length (n_bytes src) \<le> fs_space w then None else Some ENOSPC, w')))"

text \<open>\<open>out.Sync()\<close> and \<open>out.Close()\<close> are taken to succeed.\<close>

definition fileSync :: "world \<Rightarrow> nat \<Rightarrow> error option" where
  "fileSync w f = None"

definition fileClose :: "world \<Rightarrow> nat \<Rightarrow> error option" where
  "fileClose w f = None"

text \<open>\<open>os.Remove\<close>: removes the entry; the inode stays for its other entries.\<close>

definition osRemove :: "world \<Rightarrow> string \<Rightarrow> error option \<times> world" where
  "osRemove w p =
     (case resolve w p of
        Inl e \<Rightarrow> (Some e, w)
      | Inr (i, n) \<Rightarrow>
          (case resolve w (parentDir p) of
             Inl e' \<Rightarrow> (Some e', w)
           | Inr (j, d) \<Rightarrow>
               if \<not> n_write d then (Some EACCES, w)
               else if n_type n = Directory
                       \<and> list_ex (\<lambda>(q, k). parentDir q = p \<and> q \<noteq> p) (fs_names w)
                 then (Some ENOTEMPTY, w)
               else (None, w\<lparr>fs_names := AList.delete p (fs_names w)\<rparr>)))"

text \<open>The number of entries of an inode, and the bytes found at a path.\<close>

definition linkCount :: "world \<Rightarrow> nat \<Rightarrow> nat" where
  "linkCount w i = length (filter (\<lambda>(q, j). j = i) (fs_names w))"

definition contentAt :: "world \<Rightarrow> string \<Rightarrow> string option" where
  "contentAt w p = (case resolve w p of Inl e \<Rightarrow> None | Inr (i, n) \<Rightarrow> Some (n_bytes n))"


section \<open>The program\<close>

text \<open>
  The package-level variables \<open>hashes\<close>, \<open>collisions\<close>, \<open>copyErrors\<close> and
  \<open>removeErrors\<close> are fields of the state, next to the file system and the
  lines written to standard output. The counters are \<open>int64\<close>. The flags
  \<open>rename\<close>, \<open>move\<close> and \<open>simulate\<close> are set once from the command line.
  The map \<open>hashes\<close> is kept as the list of its entries in the order they were
  added; \<open>map_of\<close> is its lookup.
\<close>

datatype line =
    ErrorListing error
  | ErrorReading string error
  | Duplicate "64 word" string string
  | ErrorTime error
  | Skipped string string
  | Mapping string string
  | Copying string string
  | Moving string string
  | ErrorCopying string error
  | ErrorRemoving string error

record flags =
  rename :: bool
  move :: bool
  simulate :: bool

record state =
  world :: world
  hashes :: "(string \<times> string) list"
  collisions :: "64 word"
  copyErrors :: "64 word"
  removeErrors :: "64 word"
  stdout :: "line list"

definition println :: "line \<Rightarrow> state \<Rightarrow> state" where
  "println l st = st\<lparr>stdout := stdout st @ [l]\<rparr>"

subsection \<open>Hashing phase\<close>

definition extensions :: "string list" where
  "extensions =
     [''.jpg'', ''.gif'', ''.png'', ''.jpeg'', ''.heic'', ''.bmp'', ''.tif'', ''.jpe'',
      ''.raw'', ''.mp4'', ''.mov'', ''.m4v'', ''.3gp'', ''.avi'', ''.mkv'', ''.webm'',
      ''.flv'', ''.wmv'', ''.mpg'', ''.m2v'', ''.mp2'']"

text \<open>
  \<open>processFileHash\<close>. The parameter \<open>Sum512\<close> stands for
  \<open>fmt.Sprintf("%x", sha512.Sum512(data))\<close>, the digest of the data in
  hexadecimal; nothing below depends on what it computes. When \<open>ReadFile\<close>
  fails the error is printed and the function goes on with the data it got,
  which is empty. The part from \<open>hashesMutex.Lock()\<close> on runs under the mutex,
  one job at a time.
\<close>

definition processFileHash ::
  "(string \<Rightarrow> string) \<Rightarrow> string \<Rightarrow> string \<Rightarrow> state \<Rightarrow> state" where
  "processFileHash Sum512 path fName st =
     (let fPath = Join [path, fName];
          (data, st1) =
             (case ReadFile (world st) fPath of
                Inl err \<Rightarrow> ([], println (ErrorReading fPath err) st)
              | Inr bytes \<Rightarrow> (bytes, st));
          strHash = Sum512 data
      in case map_of (hashes st1) strHash of
           Some current \<Rightarrow>
             let currentCollisions = collisions st1 + 1
             in println (Duplicate currentCollisions fPath current)
                  (st1\<lparr>collisions := currentCollisions\<rparr>)
         | None \<Rightarrow> st1\<lparr>hashes := hashes st1 @ [(strHash, fPath)]\<rparr>)"

text \<open>
  The jobs \<open>populateHash\<close> submits: for each folder, in order, the entries that
  are not directories and whose lower-cased extension is in the allow-list. A
  folder that cannot be listed prints an error and contributes nothing.
\<close>

definition folderJobs :: "world \<Rightarrow> string \<Rightarrow> (string \<times> string) list" where
  "folderJobs w item =
     (case ReadDir w item of
        Inl err \<Rightarrow> []
      | Inr files \<Rightarrow>
          map (\<lambda>(fName, isDir). (item, fName))
            (filter (\<lambda>(fName, isDir). \<not> isDir \<and> ToLower (Ext fName) \<in> set extensions) files))"

definition folderErrors :: "world \<Rightarrow> string \<Rightarrow> line list" where
  "folderErrors w item =
     (case ReadDir w item of Inl err \<Rightarrow> [ErrorListing err] | Inr files \<Rightarrow> [])"

text \<open>
  The workers run the submitted jobs concurrently, and the jobs reach the
  mutex in an order the program does not fix. During this phase nothing
  writes to the file system, so a job's read does not depend on the other jobs,
  and the phase is the jobs' locked parts one after the other: \<open>hashJobs\<close>
  folds \<open>processFileHash\<close> over the jobs in the order they take the mutex.
  \<open>populateHash\<close> is the run in which they take it in the order of submission;
  every other run is \<open>hashJobs\<close> over a permutation of the same jobs.
\<close>

definition hashJobs ::
  "(string \<Rightarrow> string) \<Rightarrow> (string \<times> string) list \<Rightarrow> state \<Rightarrow> state" where
  "hashJobs Sum512 jobs st =
     foldl (\<lambda>s (path, fName). processFileHash Sum512 path fName s) st jobs"

definition populateHash :: "(string \<Rightarrow> string) \<Rightarrow> string list \<Rightarrow> state \<Rightarrow> state" where
  "populateHash Sum512 folders st =
     hashJobs Sum512 (concat (map (folderJobs (world st)) folders))
       (st\<lparr>hashes := [],
           stdout := stdout st @ concat (map (folderErrors (world st)) folders)\<rparr>)"

subsection \<open>Timestamp of a file\<close>

text \<open>
  \<open>getFileTime\<close> returns the time, the error and \<open>timeInPath\<close>. The parameter
  \<open>exifDateTime\<close> stands for \<open>exif.Decode\<close> followed by \<open>DateTime()\<close> on the
  bytes of the opened file: the date the library finds in them, if any.
  \<open>times.Stat\<close> looks the path up again and gives the birth time where the
  file system has one; \<open>file.Stat()\<close> asks for the open file's inode.
\<close>

definition timesStat :: "world \<Rightarrow> string \<Rightarrow> error + (gotime option \<times> gotime)" where
  "timesStat w p =
     (case resolve w p of
        Inl e \<Rightarrow> Inl e
      | Inr (i, n) \<Rightarrow> Inr (n_birth n, n_mtime n))"

definition fileStat :: "world \<Rightarrow> nat \<Rightarrow> error + gotime" where
  "fileStat w f =
     (case map_of (fs_nodes w) f of None \<Rightarrow> Inl EIO | Some n \<Rightarrow> Inr (n_mtime n))"

definition exifOf :: "(string \<Rightarrow> gotime option) \<Rightarrow> world \<Rightarrow> nat \<Rightarrow> gotime option" where
  "exifOf exifDateTime w f =
     (case map_of (fs_nodes w) f of
        None \<Rightarrow> None
      | Some n \<Rightarrow> if n_type n = Directory then None else exifDateTime (n_bytes n))"

definition getFileTime ::
  "(string \<Rightarrow> gotime option) \<Rightarrow> world \<Rightarrow> string \<Rightarrow> gotime \<times> error option \<times> bool" where
  "getFileTime exifDateTime w filePath =
     (let fileName = Base filePath
      in case (if length fileName > timeFormatLen
               then Parse (take timeFormatLen fileName) else None) of
           Some pTime \<Rightarrow> (pTime, None, True)
         | None \<Rightarrow>
             (case osOpen w filePath of
                Inl err \<Rightarrow> (zeroTime, Some err, False)
              | Inr f \<Rightarrow>
                  (case exifOf exifDateTime w f of
                     Some dt \<Rightarrow> (dt, None, False)
                   | None \<Rightarrow>
                       (case timesStat w filePath of
                          Inr (birth, mtime) \<Rightarrow>
                            (case birth of
                               Some bt \<Rightarrow> (bt, None, False)
                             | None \<Rightarrow> (mtime, None, False))
                        | Inl err \<Rightarrow>
                            (case fileStat w f of
                               Inr mtime \<Rightarrow> (mtime, None, False)
                             | Inl err' \<Rightarrow>
                                 (zeroTime, Some (TimeNotCalculated filePath), False))))))"

subsection \<open>Copying a file\<close>

text \<open>\<open>copyFileContents\<close>: the deferred close keeps the first error.\<close>

definition copyFileContents :: "world \<Rightarrow> string \<Rightarrow> string \<Rightarrow> error option \<times> world" where
  "copyFileContents w src dst =
     (case osOpen w src of
        Inl err \<Rightarrow> (Some err, w)
      | Inr inp \<Rightarrow>
          (case osCreate w dst of
             (Inl err, w1) \<Rightarrow> (Some err, w1)
           | (Inr out, w1) \<Rightarrow>
               (case ioCopy w1 out inp of
                  (Some err, w2) \<Rightarrow> (Some err, w2)
                | (None, w2) \<Rightarrow>
                    (case fileSync w2 out of
                       Some err \<Rightarrow> (Some err, w2)
                     | None \<Rightarrow> (fileClose w2 out, w2)))))"

text \<open>\<open>copyFile\<close>: the source must be a regular file; an existing destination
  must be one too, and when it is the same file nothing is done; otherwise a
  hard link is tried and, when that fails, the contents are copied.\<close>

definition copyFile :: "world \<Rightarrow> string \<Rightarrow> string \<Rightarrow> error option \<times> world" where
  "copyFile w src dst =
     (case osStat w src of
        Inl err \<Rightarrow> (Some err, w)
      | Inr sfi \<Rightarrow>
          if \<not> IsRegular sfi then (Some (NonRegularSource (Base src)), w)
          else
            (case osStat w dst of
               Inl err \<Rightarrow>
                 if \<not> IsNotExist err then (Some err, w)
                 else (case osLink w src dst of
                         (None, w1) \<Rightarrow> (None, w1)
                       | (Some lerr, w1) \<Rightarrow> copyFileContents w1 src dst)
             | Inr dfi \<Rightarrow>
                 if \<not> IsRegular dfi then (Some (NonRegularDestination (Base dst)), w)
                 else if SameFile sfi dfi then (None, w)
                 else (case osLink w src dst of
                         (None, w1) \<Rightarrow> (None, w1)
                       | (Some lerr, w1) \<Rightarrow> copyFileContents w1 src dst)))"

subsection \<open>Materialization phase\<close>

text \<open>
  One job of \<open>processHashes\<close>, for the surviving file \<open>sourceFile\<close>.
  \<open>destFileName\<close> is the first half of the job, the name of the destination;
  it prints the error of \<open>getFileTime\<close> and takes \<open>time.Now()\<close> in its place.
\<close>

definition destFileName ::
  "(string \<Rightarrow> gotime option) \<Rightarrow> flags \<Rightarrow> string \<Rightarrow> state \<Rightarrow> string \<times> state" where
  "destFileName exifDateTime fl sourceFile st =
     (if rename fl then
        (case getFileTime exifDateTime (world st) sourceFile of
           (fTime0, err, noRename) \<Rightarrow>
             let (fTime, st1) =
                   (case err of
                      Some e \<Rightarrow> (fs_clock (world st), println (ErrorTime e) st)
                    | None \<Rightarrow> (fTime0, st))
             in if noRename then (Base sourceFile, st1)
                else (removeColons (Format fTime @ '' '' @ Base sourceFile), st1))
      else (Base sourceFile, st))"

text \<open>The second half: what is done with the source and the destination path.\<close>

definition materialize :: "flags \<Rightarrow> string \<Rightarrow> string \<Rightarrow> state \<Rightarrow> state" where
  "materialize fl sourceFile destinationFile st =
     (if sourceFile = destinationFile then println (Skipped sourceFile destinationFile) st
      else if simulate fl then println (Mapping sourceFile destinationFile) st
      else
        let st1 = (if \<not> move fl then println (Copying sourceFile destinationFile) st
                   else println (Moving sourceFile destinationFile) st)
        in case copyFile (world st1) sourceFile destinationFile of
             (Some err, w1) \<Rightarrow>
               println (ErrorCopying sourceFile err)
                 (st1\<lparr>world := w1, copyErrors := copyErrors st1 + 1\<rparr>)
           | (None, w1) \<Rightarrow>
               if move fl then
                 (case osRemove w1 sourceFile of
                    (Some err, w2) \<Rightarrow>
                      println (ErrorRemoving sourceFile err)
                        (st1\<lparr>world := w2, removeErrors := removeErrors st1 + 1\<rparr>)
                  | (None, w2) \<Rightarrow> st1\<lparr>world := w2\<rparr>)
               else st1\<lparr>world := w1\<rparr>)"

definition destinationOf ::
  "(string \<Rightarrow> gotime option) \<Rightarrow> flags \<Rightarrow> string \<Rightarrow> string \<Rightarrow> state \<Rightarrow> string" where
  "destinationOf exifDateTime fl dest sourceFile st =
     Clean (Join [dest, fst (destFileName exifDateTime fl sourceFile st)])"

definition processHashesJob ::
  "(string \<Rightarrow> gotime option) \<Rightarrow> flags \<Rightarrow> string \<Rightarrow> string \<Rightarrow> state \<Rightarrow> state" where
  "processHashesJob exifDateTime fl dest sourceFile st =
     (let (name, st1) = destFileName exifDateTime fl sourceFile st;
          destinationFile = Clean (Join [dest, name])
      in materialize fl sourceFile destinationFile st1)"

text \<open>
  \<open>processHashes\<close> submits one job per value of \<open>hashes\<close>, in the map's
  iteration order, which Go leaves open; the workers run them concurrently.
  Here the jobs run one after the other, each to its end, in the order of the
  list \<open>vs\<close>: what is proved of a run is proved of every order of the jobs,
  but not of runs in which the file-system calls of two jobs interleave.
\<close>

definition processJobs ::
  "(string \<Rightarrow> gotime option) \<Rightarrow> flags \<Rightarrow> string \<Rightarrow> string list \<Rightarrow> state \<Rightarrow> state" where
  "processJobs exifDateTime fl dest vs st =
     foldl (\<lambda>s v. processHashesJob exifDateTime fl dest v s) st vs"

definition processHashes ::
  "(string \<Rightarrow> gotime option) \<Rightarrow> flags \<Rightarrow> string \<Rightarrow> state \<Rightarrow> state" where
  "processHashes exifDateTime fl dest st =
     processJobs exifDateTime fl dest (map snd (hashes st)) st"

text \<open>The mappings a run printed in simulate mode, and the pairs a run called
  \<open>copyFile\<close> with (each call follows its \<open>Copying\<close> or \<open>Moving\<close> line).\<close>

fun reported :: "line list \<Rightarrow> (string \<times> string) list" where
  "reported [] = []"
| "reported (Mapping s d # ls) = (s, d) # reported ls"
| "reported (l # ls) = reported ls"

fun attempted :: "line list \<Rightarrow> (string \<times> string) list" where
  "attempted [] = []"
| "attempted (Copying s d # ls) = (s, d) # attempted ls"
| "attempted (Moving s d # ls) = (s, d) # attempted ls"
| "attempted (l # ls) = attempted ls"


section \<open>Notions used to state the properties\<close>

text \<open>A path element that \<open>Clean\<close> keeps as it is: not empty, not \<open>.\<close> or
  \<open>..\<close>, and without a separator. \<open>endsWith m x\<close>: the path \<open>x\<close> is \<open>m\<close> or ends
  in a separator followed by \<open>m\<close>.\<close>

definition plainElem :: "string \<Rightarrow> bool" where
  "plainElem m = (m \<noteq> [] \<and> m \<noteq> ''.'' \<and> m \<noteq> ''..'' \<and> sep \<notin> set m)"

definition endsWith :: "string \<Rightarrow> string \<Rightarrow> bool" where
  "endsWith m x = (x = m \<or> suffix (sep # m) x)"

text \<open>The path of a hashing job, the data \<open>processFileHash\<close> hashes for a path
  (nothing when the read fails), and the \<open>duplicate\<close> lines about files with a
  given property.\<close>

definition jobPath :: "string \<times> string \<Rightarrow> string" where
  "jobPath j = Join [fst j, snd j]"

definition fileData :: "world \<Rightarrow> string \<Rightarrow> string" where
  "fileData w fPath = (case ReadFile w fPath of Inl err \<Rightarrow> [] | Inr bytes \<Rightarrow> bytes)"

fun isDuplicateOf :: "(string \<Rightarrow> bool) \<Rightarrow> line \<Rightarrow> bool" where
  "isDuplicateOf P (Duplicate c fPath current) = P fPath"
| "isDuplicateOf P l = False"

text \<open>The first step of \<open>processFileHash\<close>: the error of a failed read is
  printed.\<close>

definition logRead :: "string \<Rightarrow> state \<Rightarrow> state" where
  "logRead f st = (case ReadFile (world st) f of
                     Inl err \<Rightarrow> println (ErrorReading f err) st | Inr bytes \<Rightarrow> st)"

text \<open>The lines a run from \<open>st\<close> to \<open>st'\<close> printed.\<close>

definition printed :: "state \<Rightarrow> state \<Rightarrow> line list" where
  "printed st st' = drop (length (stdout st)) (stdout st')"

section \<open>A concrete file system\<close>

text \<open>
  The file system the examples run on: source folders \<open>/s\<close> and \<open>/s2\<close>, a
  read-only folder \<open>/r\<close>, the destination \<open>/d\<close>, and a folder \<open>/x\<close> on
  another device. \<open>/s/a.jpg\<close> and \<open>/s/c.JPG\<close> hold the same bytes;
  \<open>/s/u.jpg\<close> cannot be read; \<open>/s/e.jpg\<close> and \<open>/s/f.jpg\<close> are empty;
  \<open>/s/w.jpg\<close> may be read but not written; \<open>/s/p.jpg\<close> and \<open>/d/p.jpg\<close> are
  two names of one device file; \<open>/d/b.jpg\<close> and \<open>/d/20200102T030405 a.jpg\<close>
  are hard links to \<open>/s/b.jpg\<close>. There is no \<open>/s/gone.jpg\<close>.
\<close>

definition exTimeA :: gotime where
  "exTimeA = \<lparr>t_year = 2020, t_month = 1, t_day = 2, t_hour = 3, t_min = 4, t_sec = 5\<rparr>"

definition exTimeB :: gotime where
  "exTimeB = \<lparr>t_year = 2019, t_month = 11, t_day = 12, t_hour = 13, t_min = 14, t_sec = 15\<rparr>"

definition exNow :: gotime where
  "exNow = \<lparr>t_year = 2021, t_month = 6, t_day = 7, t_hour = 8, t_min = 9, t_sec = 10\<rparr>"

definition exDir :: node where
  "exDir = \<lparr>n_type = Directory, n_dev = 1, n_bytes = [], n_read = True, n_write = True,
            n_birth = None, n_mtime = exTimeB\<rparr>"

definition exFile :: "string \<Rightarrow> gotime \<Rightarrow> node" where
  "exFile bytes t = \<lparr>n_type = Regular, n_dev = 1, n_bytes = bytes, n_read = True,
                     n_write = True, n_birth = None, n_mtime = t\<rparr>"

definition exDevice :: node where
  "exDevice = \<lparr>n_type = Device, n_dev = 1, n_bytes = [], n_read = True, n_write = True,
             n_birth = None, n_mtime = exTimeB\<rparr>"

definition exWorld :: world where
  "exWorld =
     \<lparr>fs_names = [(''/s'', 10), (''/s2'', 11), (''/r'', 12), (''/d'', 13),
                  (''/s/a.jpg'', 1), (''/s/b.jpg'', 2), (''/s/c.JPG'', 3),
                  (''/s/u.jpg'', 4), (''/s/e.jpg'', 5), (''/s/p.jpg'', 6),
                  (''/s/20200102T030405'', 7), (''/s2/a.jpg'', 8), (''/r/k.jpg'', 9),
                  (''/d/p.jpg'', 6), (''/d/b.jpg'', 2),
                  (''/d/20200102T030405 a.jpg'', 2),
                  (''/s/f.jpg'', 14), (''/s/w.jpg'', 15), (''/s2/w.jpg'', 16),
                  (''/x'', 17)],
      fs_nodes = [(10, exDir), (11, exDir), (12, exDir\<lparr>n_write := False\<rparr>), (13, exDir),
                  (1, exFile ''AAA'' exTimeA), (2, exFile ''BB'' exTimeB),
                  (3, exFile ''AAA'' exTimeB),
                  (4, (exFile ''UUU'' exTimeB)\<lparr>n_read := False\<rparr>),
                  (5, exFile [] exTimeB), (6, exDevice),
                  (7, exFile ''C'' exTimeB), (8, exFile ''DDDD'' exTimeB),
                  (9, exFile ''K'' exTimeB), (14, exFile [] exTimeB),
                  (15, (exFile ''RO'' exTimeB)\<lparr>n_write := False\<rparr>),
                  (16, exFile ''WW'' exTimeB), (17, exDir\<lparr>n_dev := 2\<rparr>)],
      fs_denied = [], fs_space = 1000, fs_clock = exNow\<rparr>"

text \<open>The same after \<open>/s/a.jpg\<close> has been copied over the contents of the file
  that \<open>/s/b.jpg\<close> and \<open>/d/20200102T030405 a.jpg\<close> name.\<close>

definition exWorldOver :: world where
  "exWorldOver = exWorld\<lparr>fs_nodes :=
      AList.update 2 (exFile ''AAA'' exNow) (fs_nodes exWorld)\<rparr>"

definition exState :: state where
  "exState = \<lparr>world = exWorld, hashes = [], collisions = 0, copyErrors = 0,
               removeErrors = 0, stdout = []\<rparr>"

section \<open>Properties\<close>

lemmas ex_defs = exWorld_def exState_def exFile_def exDir_def exDevice_def
  exTimeA_def exTimeB_def exNow_def

lemmas parse_defs = Parse_def getyear_def getnum_def isDigit_def digitVal_def
  daysIn_def isLeap_def

lemmas path_defs = Base_def Clean_def Join_def sep_def

lemmas ex_eval = exWorld_def exState_def exFile_def exDir_def exDevice_def
  resolve_def osStat_def osOpen_def osLink_def osCreate_def osRemove_def ioCopy_def
  fileSync_def fileClose_def setNode_def freshIno_def parentDir_def sep_def
  IsRegular_def SameFile_def IsNotExist_def copyFile_def copyFileContents_def

lemma ex_parse: "Parse ''20200102T030405'' = Some exTimeA"
  by (simp add: parse_defs exTimeA_def)

subsection \<open>Paths and formatted times\<close>

lemma endsWith_iff: "endsWith m x \<longleftrightarrow> x = m \<or> (\<exists>pre. x = pre @ sep # m)"
  by (simp add: endsWith_def suffix_def)

lemma splitSep_nonempty: "splitSep s \<noteq> []"
  by (induction s) (auto split: list.splits)

lemma splitSep_plain: "sep \<notin> set m \<Longrightarrow> splitSep m = [m]"
  by (induction m) auto

lemma splitSep_append: "splitSep (a @ sep # b) = splitSep a @ splitSep b"
proof (induction a)
  case Nil
  then show ?case by simp
next
  case (Cons c a)
  then show ?case
    using splitSep_nonempty [of a] by (cases "splitSep a") auto
qed

lemma cleanElems_empty_last: "cleanElems r out (es @ [[]]) = cleanElems r out es"
  by (induction r out es rule: cleanElems.induct) (auto split: list.splits)

lemma cleanElems_plain_last:
  "plainElem m \<Longrightarrow> \<exists>ys. cleanElems r out (es @ [m]) = ys @ [m]"
  by (induction r out es rule: cleanElems.induct) (auto simp: plainElem_def split: list.splits)

lemma joinSep_snoc: "joinSep (ys @ [m]) = (if ys = [] then m else joinSep ys @ sep # m)"
  by (induction ys rule: joinSep.induct) auto

lemma Clean_endsWith:
  assumes m: "plainElem m" and x: "endsWith m x \<or> endsWith (m @ [sep]) x"
  shows "endsWith m (Clean x)"
proof -
  define r where "r = (hd x = sep)"
  have ne: "x \<noteq> []" using m x by (auto simp: endsWith_iff plainElem_def)
  have "\<exists>es. splitSep x = es @ [m] \<or> splitSep x = (es @ [m]) @ [[]]"
    using x m
    by (auto simp: endsWith_iff splitSep_append splitSep_plain plainElem_def)
  then obtain es where es: "splitSep x = es @ [m] \<or> splitSep x = (es @ [m]) @ [[]]"
    by blast
  obtain ys where "cleanElems r [] (es @ [m]) = ys @ [m]"
    using cleanElems_plain_last [OF m] by blast
  with es have ce: "cleanElems r [] (splitSep x) = ys @ [m]"
    by (auto simp only: cleanElems_empty_last)
  have jn: "joinSep (ys @ [m]) \<noteq> []"
    using m by (simp add: joinSep_snoc plainElem_def)
  have c: "Clean x = (if r then sep # joinSep (ys @ [m]) else joinSep (ys @ [m]))"
    using ne jn ce unfolding Clean_def Let_def r_def [symmetric] by (cases r) simp_all
  have b: "endsWith m (joinSep (ys @ [m]))"
    by (simp add: joinSep_snoc endsWith_iff)
  have "endsWith m z \<Longrightarrow> endsWith m (sep # z)" for z
    unfolding endsWith_iff by (metis append_Cons append_Nil)
  with b c show ?thesis by simp
qed

lemma Base_endsWith:
  assumes m: "plainElem m" and x: "endsWith m x"
  shows "Base x = m"
proof -
  from m have ne: "m \<noteq> []" and ns: "sep \<notin> set m" by (auto simp: plainElem_def)
  obtain c cs where r: "rev m = c # cs" using ne by (cases "rev m") auto
  then have "c \<in> set m" by (metis list.set_intros(1) set_rev)
  with ns have c: "c \<noteq> sep" by auto
  have d: "dropWhile (\<lambda>c. c = sep) (rev m @ zs) = rev m @ zs" for zs
    using c by (simp add: r)
  have t: "takeWhile (\<lambda>c. c \<noteq> sep) (rev m @ sep # zs) = rev m" for zs
  proof -
    have "takeWhile (\<lambda>c. c \<noteq> sep) (rev m @ sep # zs)
          = rev m @ takeWhile (\<lambda>c. c \<noteq> sep) (sep # zs)"
      by (rule takeWhile_append2) (use ns in auto)
    then show ?thesis by simp
  qed
  have t': "takeWhile (\<lambda>c. c \<noteq> sep) (rev m) = rev m"
    using ns by auto
  from x show ?thesis
  proof (auto simp: endsWith_iff)
    have "dropWhile (\<lambda>c. c = sep) (rev m) = rev m" using d [of "[]"] by simp
    then show "Base m = m" using ne by (simp add: Base_def Let_def t')
  next
    fix pre
    show "Base (pre @ sep # m) = m"
      using ne by (simp add: Base_def Let_def d t)
  qed
qed

lemma Base_shape: "Base p = [sep] \<or> sep \<notin> set (Base p)"
proof -
  have "sep \<notin> set (rev (takeWhile (\<lambda>c. c \<noteq> sep) zs))" for zs
    by (auto dest: set_takeWhileD)
  then show ?thesis by (auto simp: Base_def Let_def sep_def)
qed

lemma Base_not_empty: "Base p \<noteq> []"
  by (auto simp: Base_def Let_def)

lemma Join_two:
  "n \<noteq> [] \<Longrightarrow> Join [dest, n] = Clean (if dest = [] then n else dest @ sep # n)"
  by (auto simp: Join_def)

lemma Base_destination:
  assumes m: "plainElem m" and n: "n = m \<or> n = m @ [sep]"
  shows "Base (Clean (Join [dest, n])) = m"
proof -
  let ?x = "if dest = [] then n else dest @ sep # n"
  have "n \<noteq> []" using m n by (auto simp: plainElem_def)
  then have j: "Join [dest, n] = Clean ?x" by (rule Join_two)
  have "endsWith m ?x \<or> endsWith (m @ [sep]) ?x"
    using n by (auto simp: endsWith_iff)
  then have "endsWith m (Clean ?x)" by (rule Clean_endsWith [OF m])
  then have "endsWith m (Clean ?x) \<or> endsWith (m @ [sep]) (Clean ?x)" by simp
  then have "endsWith m (Clean (Clean ?x))" by (rule Clean_endsWith [OF m])
  then show ?thesis using j by (simp add: Base_endsWith [OF m])
qed



lemma of_char_digitChar: "(of_char (digitChar d) :: nat) = 48 + d mod 10"
proof -
  have "48 + d mod 10 < 256" by (rule less_le_trans [of _ 58]) auto
  then show ?thesis by (simp add: digitChar_def)
qed

lemma digitChar_not: "digitChar d \<noteq> sep" "digitChar d \<noteq> CHR '':''"
proof -
  have "(of_char (digitChar d) :: nat) \<noteq> of_char sep" 
    by (simp add: of_char_digitChar sep_def)
  then show "digitChar d \<noteq> sep" by auto
  have "(of_char (digitChar d) :: nat) \<noteq> of_char CHR '':''" 
    by (simp add: of_char_digitChar)
  then show "digitChar d \<noteq> CHR '':''" by auto
qed



lemma decimal_chars: "c \<in> set (decimal n) \<Longrightarrow> \<exists>d. c = digitChar d"
proof (induction n arbitrary: c rule: decimal.induct)
  case (1 n)
  show ?case
  proof (cases "n < 10")
    case True
    with "1.prems" show ?thesis by (subst (asm) decimal.simps) auto
  next
    case False
    with "1.prems" have "c \<in> set (decimal (n div 10)) \<or> c = digitChar n"
      by (subst (asm) decimal.simps) auto
    with "1.IH" [OF False] show ?thesis by blast
  qed
qed

lemma appendInt_no_sep: "sep \<notin> set (appendInt x k)"
proof -
  have "sep \<notin> set (decimal n)" for n
  proof
    assume "sep \<in> set (decimal n)"
    then obtain d where "sep = digitChar d" using decimal_chars by blast
    then show False using digitChar_not(1) [of d] by simp
  qed
  then show ?thesis by (auto simp: appendInt_def Let_def sep_def)
qed

lemma Format_no_sep: "sep \<notin> set (Format t)"
proof -
  have "CHR ''T'' \<noteq> sep" by (simp add: sep_def)
  then show ?thesis using appendInt_no_sep by (simp add: Format_def)
qed

lemma removeColons_set: "set (removeColons s) = set s - {CHR '':''}"
  by (auto simp: removeColons_def)

lemma removeColons_id: "CHR '':'' \<notin> set s \<Longrightarrow> removeColons s = s"
  by (auto simp: removeColons_def filter_id_conv)

lemma renamed_base:
  assumes "sep \<notin> set F"
  shows "\<exists>m. plainElem m \<and> Base (Clean (Join [dest, removeColons (F @ '' '' @ Base src)])) = m
          \<and> m \<noteq> Base src"
proof (cases "Base src = [sep]")
  case True
  let ?m = "removeColons F @ '' ''"
  have "sep \<notin> set ?m" using assms by (simp add: removeColons_set sep_def)
  then have p: "plainElem ?m" by (auto simp: plainElem_def)
  have "removeColons (F @ '' '' @ Base src) = ?m @ [sep]"
    using True by (simp add: removeColons_def sep_def)
  then have "Base (Clean (Join [dest, removeColons (F @ '' '' @ Base src)])) = ?m"
    using Base_destination [OF p, of "?m @ [sep]"] by simp
  moreover have "?m \<noteq> Base src" using True by (simp add: sep_def)
  ultimately show ?thesis using p by blast
next
  case False
  then have ns: "sep \<notin> set (Base src)" using Base_shape [of src] by simp
  let ?m = "removeColons (F @ '' '' @ Base src)"
  have e: "?m = removeColons F @ '' '' @ removeColons (Base src)"
    by (simp add: removeColons_def)
  have sp: "CHR '' '' \<in> set ?m" by (simp add: removeColons_set)
  have "sep \<notin> set ?m" using assms ns by (simp add: removeColons_set sep_def)
  with sp have p: "plainElem ?m" by (auto simp: plainElem_def)
  have b: "Base (Clean (Join [dest, ?m])) = ?m"
    using Base_destination [OF p, of ?m] by simp
  have "?m \<noteq> Base src"
  proof
    assume eq: "?m = Base src"
    then have "CHR '':'' \<notin> set (Base src)"
      using removeColons_set [of "F @ '' '' @ Base src"] by auto
    then have "removeColons (Base src) = Base src" by (rule removeColons_id)
    with e eq have "Base src = removeColons F @ '' '' @ Base src" by simp
    then have "length (Base src) = length (removeColons F @ '' '' @ Base src)"
      by (rule arg_cong)
    then show False by simp
  qed
  with p b show ?thesis by blast
qed

lemma renamed_not_source:
  "Clean (Join [dest, removeColons (Format t @ '' '' @ Base src)]) \<noteq> src"
  using renamed_base [where F = "Format t" and dest = dest and src = src, OF Format_no_sep]
  by auto

lemma renamed_plain_base:
  assumes "sep \<notin> set (Base src)"
  shows "Base (Clean (Join [dest, removeColons (Format t @ '' '' @ Base src)]))
         = removeColons (Format t @ '' '' @ Base src)"
proof -
  let ?m = "removeColons (Format t @ '' '' @ Base src)"
  have sp: "CHR '' '' \<in> set ?m" by (simp add: removeColons_set)
  have "sep \<notin> set ?m" using assms Format_no_sep [of t] by (simp add: removeColons_set sep_def)
  with sp have p: "plainElem ?m" by (auto simp: plainElem_def)
  show ?thesis using Base_destination [OF p, of ?m] by simp
qed

subsection \<open>Facts about the calls\<close>

lemma resolve_Inr:
  "resolve w p = Inr (i, n) \<longleftrightarrow>
     p \<notin> set (fs_denied w) \<and> map_of (fs_names w) p = Some i \<and> map_of (fs_nodes w) i = Some n"
  by (auto simp: resolve_def split: option.splits)

lemma same_file_same_info:
  assumes "osStat w src = Inr sfi" and "osStat w dst = Inr dfi" and "SameFile sfi dfi"
  shows "dfi = sfi"
proof -
  obtain i n where s: "sfi = (i, n)" by (cases sfi)
  obtain j m where d: "dfi = (j, m)" by (cases dfi)
  from assms s d show ?thesis
    by (auto simp: osStat_def resolve_Inr SameFile_def)
qed

lemma osRemove_failed: "osRemove w p = (Some e, w') \<Longrightarrow> w' = w"
  by (auto simp: osRemove_def split: sum.splits prod.splits if_splits)

lemma osRemove_done:
  assumes "osRemove w p = (None, w')"
  shows "resolve w' p = Inl ENOENT"
proof -
  from assms obtain i n where r: "resolve w p = Inr (i, n)"
    and w': "w' = w\<lparr>fs_names := AList.delete p (fs_names w)\<rparr>"
    by (auto simp: osRemove_def split: sum.splits prod.splits if_splits)
  from r have "p \<notin> set (fs_denied w)" by (simp add: resolve_Inr)
  then show ?thesis by (simp add: resolve_def w' delete_conv')
qed

lemma destFileName_frame:
  "world (snd (destFileName X fl src st)) = world st"
  "hashes (snd (destFileName X fl src st)) = hashes st"
  "collisions (snd (destFileName X fl src st)) = collisions st"
  "copyErrors (snd (destFileName X fl src st)) = copyErrors st"
  "removeErrors (snd (destFileName X fl src st)) = removeErrors st"
  by (auto simp: destFileName_def println_def split: prod.splits option.splits)

lemma processHashesJob_eq:
  "processHashesJob X fl dest src st =
     materialize fl src (destinationOf X fl dest src st) (snd (destFileName X fl src st))"
  by (simp add: processHashesJob_def destinationOf_def split: prod.splits)

lemma getFileTime_in_path_no_error:
  "getFileTime X w p = (t, err, True) \<Longrightarrow> err = None"
  by (auto simp: getFileTime_def Let_def split: option.splits sum.splits prod.splits if_splits)

lemma getFileTime_error_not_in_path:
  "getFileTime X w p = (t, Some e, b) \<Longrightarrow> b = False"
  by (auto simp: getFileTime_def Let_def split: option.splits sum.splits prod.splits if_splits)

lemma reported_append: "reported (xs @ ys) = reported xs @ reported ys"
  by (induction xs rule: reported.induct) auto

lemma attempted_append: "attempted (xs @ ys) = attempted xs @ attempted ys"
  by (induction xs rule: attempted.induct) auto

lemma materialize_attempted:
  assumes "\<not> simulate fl" and "src \<noteq> dst"
  shows "attempted (stdout (materialize fl src dst st)) = attempted (stdout st) @ [(src, dst)]"
  using assms
  by (auto simp: materialize_def println_def attempted_append Let_def
      split: prod.splits option.splits)


lemma destFileName_cases:
  "destFileName X fl src st =
     (if \<not> rename fl then (Base src, st)
      else case getFileTime X (world st) src of
             (t, None, noRename) \<Rightarrow>
               (if noRename then Base src
                else removeColons (Format t @ '' '' @ Base src), st)
           | (t, Some e, noRename) \<Rightarrow>
               (removeColons (Format (fs_clock (world st)) @ '' '' @ Base src),
                println (ErrorTime e) st))"
  by (auto simp: destFileName_def split: prod.splits option.splits
      dest: getFileTime_error_not_in_path)

lemma destFileName_plain_base:
  assumes "plainElem (Base src)"
  shows "Base (Clean (Join [dest, fst (destFileName X fl src st)]))
         = fst (destFileName X fl src st)"
proof -
  have ns: "sep \<notin> set (Base src)" using assms by (simp add: plainElem_def)
  have a: "Base (Clean (Join [dest, Base src])) = Base src"
    using Base_destination [OF assms, of "Base src"] by simp
  show ?thesis
    by (auto simp: destFileName_cases a renamed_plain_base [OF ns, simplified]
        split: prod.splits option.splits)
qed

lemma ex_time_a: "getFileTime (\<lambda>bytes. None) exWorld ''/s/a.jpg'' = (exTimeA, None, False)"
  by (simp add: getFileTime_def path_defs timeFormatLen_def osOpen_def resolve_def
      exifOf_def timesStat_def exWorld_def exFile_def)

lemma ex_format_a: "Format exTimeA = ''20200102T030405''"
  by code_simp

lemma ex_format_now: "Format exNow = ''20210607T080910''"
  by code_simp

subsection \<open>The timestamp in the file name\<close>

text \<open>
  Claim C2, as amended. When the base name of the file is longer than the
  15 characters of the layout \<open>YYYYMMDDTHHMMSS\<close> and its first 15 characters
  parse against the layout, \<open>getFileTime\<close> returns the parsed time, no error,
  and \<open>timeInPath = true\<close>. The result is the same for every file system,
  clock and metadata decoder: none of them is consulted.
\<close>

theorem getFileTime_time_in_path:
  assumes "timeFormatLen < length (Base filePath)"
    and "Parse (take timeFormatLen (Base filePath)) = Some pTime"
  shows "getFileTime exifDateTime w filePath = (pTime, None, True)"
  using assms by (simp add: getFileTime_def)

text \<open>The file \<open>/s/20200102T030405 a.jpg\<close>: the time is the one in its name.\<close>

theorem getFileTime_time_in_path_witness:
  "timeFormatLen < length (Base ''/s/20200102T030405 a.jpg'')
   \<and> Parse (take timeFormatLen (Base ''/s/20200102T030405 a.jpg'')) = Some exTimeA
   \<and> getFileTime (\<lambda>bytes. None) exWorld ''/s/20200102T030405 a.jpg''
       = (exTimeA, None, True)"
proof -
  have b: "Base ''/s/20200102T030405 a.jpg'' = ''20200102T030405 a.jpg''"
    by (simp add: path_defs)
  have l: "timeFormatLen < length (Base ''/s/20200102T030405 a.jpg'')"
    by (simp add: b timeFormatLen_def)
  have p: "Parse (take timeFormatLen (Base ''/s/20200102T030405 a.jpg'')) = Some exTimeA"
    by (simp add: b timeFormatLen_def ex_parse)
  from getFileTime_time_in_path [OF l p] l p show ?thesis by simp
qed

text \<open>
  Claim C2 as stated asks for a base name of at least 15 characters. The
  function tests \<open>len(fileName) > len(timeFormat)\<close>: for the file
  \<open>/s/20200102T030405\<close>, whose base name is exactly the 15 characters of a
  valid timestamp, it does not return the parsed time with \<open>timeInPath\<close> but
  opens the file and returns its modification time.
\<close>

theorem getFileTime_fifteen_counterexample:
  "15 \<le> length (Base ''/s/20200102T030405'')
   \<and> Parse (take 15 (Base ''/s/20200102T030405'')) = Some exTimeA
   \<and> getFileTime (\<lambda>bytes. None) exWorld ''/s/20200102T030405'' = (exTimeB, None, False)
   \<and> getFileTime (\<lambda>bytes. None) exWorld ''/s/20200102T030405'' \<noteq> (exTimeA, None, True)"
proof -
  have b: "Base ''/s/20200102T030405'' = ''20200102T030405''"
    by (simp add: path_defs)
  have g: "getFileTime (\<lambda>bytes. None) exWorld ''/s/20200102T030405''
           = (exTimeB, None, False)"
    by (simp add: getFileTime_def b timeFormatLen_def osOpen_def resolve_def exifOf_def
        timesStat_def exWorld_def exFile_def)
  show ?thesis by (simp add: b ex_parse g)
qed


subsection \<open>Source and destination are one file\<close>

text \<open>
  Claim C6, as amended. When source and destination both exist, the source is
  a regular file, and \<open>os.SameFile\<close> holds of them (same device, same inode),
  \<open>copyFile\<close> returns no error and the file system it was given: the bytes
  found at the source and the number of links of its inode are what they were.
\<close>

theorem copyFile_same_file:
  assumes "osStat w src = Inr sfi" and "osStat w dst = Inr dfi"
    and "IsRegular sfi" and "SameFile sfi dfi"
  shows "copyFile w src dst = (None, w)
         \<and> contentAt (snd (copyFile w src dst)) src = contentAt w src
         \<and> linkCount (snd (copyFile w src dst)) (fst sfi) = linkCount w (fst sfi)"
proof -
  have "dfi = sfi" using assms(1,2,4) by (rule same_file_same_info)
  with assms have "copyFile w src dst = (None, w)"
    by (simp add: copyFile_def)
  then show ?thesis by simp
qed

text \<open>\<open>/s/b.jpg\<close> and \<open>/d/b.jpg\<close> are hard links to one regular file with three
  names.\<close>

theorem copyFile_same_file_witness:
  "osStat exWorld ''/s/b.jpg'' = Inr (2, exFile ''BB'' exTimeB)
   \<and> osStat exWorld ''/d/b.jpg'' = Inr (2, exFile ''BB'' exTimeB)
   \<and> IsRegular (2, exFile ''BB'' exTimeB)
   \<and> SameFile (2, exFile ''BB'' exTimeB) (2, exFile ''BB'' exTimeB)
   \<and> copyFile exWorld ''/s/b.jpg'' ''/d/b.jpg'' = (None, exWorld)
   \<and> linkCount exWorld 2 = 3"
proof -
  have s: "osStat exWorld ''/s/b.jpg'' = Inr (2, exFile ''BB'' exTimeB)"
    by (simp add: osStat_def resolve_def exWorld_def)
  have d: "osStat exWorld ''/d/b.jpg'' = Inr (2, exFile ''BB'' exTimeB)"
    by (simp add: osStat_def resolve_def exWorld_def)
  have r: "IsRegular (2, exFile ''BB'' exTimeB)"
    by (simp add: IsRegular_def exFile_def)
  have e: "SameFile (2, exFile ''BB'' exTimeB) (2, exFile ''BB'' exTimeB)"
    by (simp add: SameFile_def)
  have l: "linkCount exWorld 2 = 3" by (simp add: linkCount_def exWorld_def)
  from copyFile_same_file [OF s d r e] s d r e l show ?thesis by simp
qed

text \<open>
  Claim C6 as stated covers every existing source and destination that are
  the same entry. \<open>copyFile\<close> tests the source's mode before it compares the
  two: for the two names \<open>/s/p.jpg\<close> and \<open>/d/p.jpg\<close> of one device file it
  returns the error for a non-regular source.
\<close>

theorem copyFile_same_device_counterexample:
  "osStat exWorld ''/s/p.jpg'' = Inr (6, exDevice)
   \<and> osStat exWorld ''/d/p.jpg'' = Inr (6, exDevice)
   \<and> SameFile (6, exDevice) (6, exDevice)
   \<and> copyFile exWorld ''/s/p.jpg'' ''/d/p.jpg'' = (Some (NonRegularSource ''p.jpg''), exWorld)"
  by (simp add: osStat_def resolve_def exWorld_def SameFile_def copyFile_def IsRegular_def
      exDevice_def path_defs)

subsection \<open>Move mode\<close>

text \<open>
  Claim C7. A job in move mode (not simulated, the destination path differing
  from the source path) calls \<open>copyFile\<close>. When \<open>copyFile\<close> fails, the job ends
  in the file system \<open>copyFile\<close> left, so no deletion was made, with
  \<open>copyErrors\<close> one higher and \<open>removeErrors\<close> as it was. When \<open>copyFile\<close>
  succeeds the job calls \<open>os.Remove\<close> on the source: if that fails,
  \<open>removeErrors\<close> is one higher, \<open>copyErrors\<close> is as it was, and the file
  system is the one \<open>copyFile\<close> left, the destination included; if it
  succeeds, the source path no longer exists and no counter changes.
\<close>

theorem move_mode_errors:
  assumes "move fl" and "\<not> simulate fl"
    and "src \<noteq> destinationOf X fl dest src st"
    and "st' = processHashesJob X fl dest src st"
  shows "case copyFile (world st) src (destinationOf X fl dest src st) of
           (Some err, w1) \<Rightarrow>
             world st' = w1 \<and> copyErrors st' = copyErrors st + 1
             \<and> removeErrors st' = removeErrors st
         | (None, w1) \<Rightarrow>
             (case osRemove w1 src of
                (Some err, w2) \<Rightarrow>
                  world st' = w1 \<and> removeErrors st' = removeErrors st + 1
                  \<and> copyErrors st' = copyErrors st
              | (None, w2) \<Rightarrow>
                  world st' = w2 \<and> resolve (world st') src = Inl ENOENT
                  \<and> copyErrors st' = copyErrors st \<and> removeErrors st' = removeErrors st)"
  using assms
  by (auto simp: processHashesJob_eq materialize_def println_def destFileName_frame
      split: prod.splits option.splits dest: osRemove_failed osRemove_done)

text \<open>Moving \<open>/r/k.jpg\<close> out of the read-only folder \<open>/r\<close>: the hard link
  \<open>/d/k.jpg\<close> is made, the removal is refused and counted as a remove error.\<close>

lemma ex_dest_k:
  "destinationOf X \<lparr>rename = False, move = True, simulate = False\<rparr> ''/d'' ''/r/k.jpg'' exState
   = ''/d/k.jpg''"
  by (simp add: destinationOf_def destFileName_def path_defs)

lemma ex_copy_k:
  "copyFile exWorld ''/r/k.jpg'' ''/d/k.jpg''
   = (None, exWorld\<lparr>fs_names := fs_names exWorld @ [(''/d/k.jpg'', 9)]\<rparr>)"
  by (simp add: ex_eval)

lemma ex_remove_k:
  "osRemove (exWorld\<lparr>fs_names := fs_names exWorld @ [(''/d/k.jpg'', 9)]\<rparr>) ''/r/k.jpg''
   = (Some EACCES, exWorld\<lparr>fs_names := fs_names exWorld @ [(''/d/k.jpg'', 9)]\<rparr>)"
  by (simp add: ex_eval)

theorem move_mode_errors_witness:
  "move \<lparr>rename = False, move = True, simulate = False\<rparr>
   \<and> \<not> simulate \<lparr>rename = False, move = True, simulate = False\<rparr>
   \<and> ''/r/k.jpg'' \<noteq> destinationOf (\<lambda>bytes. None)
         \<lparr>rename = False, move = True, simulate = False\<rparr> ''/d'' ''/r/k.jpg'' exState
   \<and> world (processHashesJob (\<lambda>bytes. None)
         \<lparr>rename = False, move = True, simulate = False\<rparr> ''/d'' ''/r/k.jpg'' exState)
       = exWorld\<lparr>fs_names := fs_names exWorld @ [(''/d/k.jpg'', 9)]\<rparr>
   \<and> removeErrors (processHashesJob (\<lambda>bytes. None)
         \<lparr>rename = False, move = True, simulate = False\<rparr> ''/d'' ''/r/k.jpg'' exState) = 1
   \<and> copyErrors (processHashesJob (\<lambda>bytes. None)
         \<lparr>rename = False, move = True, simulate = False\<rparr> ''/d'' ''/r/k.jpg'' exState) = 0"
proof -
  let ?fl = "\<lparr>rename = False, move = True, simulate = False\<rparr>"
  have m: "move ?fl" and s: "\<not> simulate ?fl" by simp_all
  have d: "''/r/k.jpg'' \<noteq> destinationOf (\<lambda>bytes. None) ?fl ''/d'' ''/r/k.jpg'' exState"
    by (simp add: ex_dest_k)
  have w: "world exState = exWorld" "copyErrors exState = 0" "removeErrors exState = 0"
    by (simp_all add: exState_def)
  from move_mode_errors [OF m s d refl] show ?thesis
    by (simp add: ex_dest_k ex_copy_k ex_remove_k w)
qed


subsection \<open>The name of the destination file\<close>

text \<open>
  Claim C8. With renaming disabled, the job's destination file name is the
  base name of the source, unchanged. With renaming enabled and a resolver
  that does not report the time in the path, it is the resolved time (the
  time \<open>getFileTime\<close> returned or, on its error, the clock's) formatted with
  the layout \<open>20060102T150405\<close>, a space, and the base name, with every colon
  removed from the whole; no colon is left in it. For a source whose base
  name is an ordinary path element, that name is the last element of the
  destination path the job builds.
\<close>

theorem destination_file_name:
  "(\<not> rename fl \<longrightarrow> fst (destFileName X fl src st) = Base src)
   \<and> (rename fl \<and> getFileTime X (world st) src = (t, err, False) \<longrightarrow>
        fst (destFileName X fl src st)
          = removeColons
              (Format (case err of None \<Rightarrow> t | Some e \<Rightarrow> fs_clock (world st))
               @ '' '' @ Base src)
        \<and> CHR '':'' \<notin> set (fst (destFileName X fl src st)))
   \<and> (plainElem (Base src) \<longrightarrow>
        Base (destinationOf X fl dest src st) = fst (destFileName X fl src st))"
proof -
  have 1: "\<not> rename fl \<longrightarrow> fst (destFileName X fl src st) = Base src"
    by (simp add: destFileName_cases)
  have 2: "rename fl \<and> getFileTime X (world st) src = (t, err, False) \<longrightarrow>
        fst (destFileName X fl src st)
          = removeColons
              (Format (case err of None \<Rightarrow> t | Some e \<Rightarrow> fs_clock (world st))
               @ '' '' @ Base src)
        \<and> CHR '':'' \<notin> set (fst (destFileName X fl src st))"
    by (auto simp: destFileName_cases removeColons_set split: option.splits)
  have 3: "plainElem (Base src) \<longrightarrow>
        Base (destinationOf X fl dest src st) = fst (destFileName X fl src st)"
    by (simp add: destinationOf_def destFileName_plain_base)
  from 1 2 3 show ?thesis by blast
qed

text \<open>For \<open>/s/a.jpg\<close>, modified at 2020-01-02 03:04:05, the name is \<open>a.jpg\<close>
  without renaming and \<open>20200102T030405 a.jpg\<close> with it.\<close>

theorem destination_file_name_witness:
  "\<not> rename \<lparr>rename = False, move = False, simulate = False\<rparr>
   \<and> fst (destFileName (\<lambda>bytes. None) \<lparr>rename = False, move = False, simulate = False\<rparr>
            ''/s/a.jpg'' exState) = ''a.jpg''
   \<and> rename \<lparr>rename = True, move = False, simulate = False\<rparr>
   \<and> getFileTime (\<lambda>bytes. None) (world exState) ''/s/a.jpg'' = (exTimeA, None, False)
   \<and> fst (destFileName (\<lambda>bytes. None) \<lparr>rename = True, move = False, simulate = False\<rparr>
            ''/s/a.jpg'' exState) = ''20200102T030405 a.jpg''
   \<and> plainElem (Base ''/s/a.jpg'')
   \<and> Base (destinationOf (\<lambda>bytes. None) \<lparr>rename = True, move = False, simulate = False\<rparr>
            ''/d'' ''/s/a.jpg'' exState) = ''20200102T030405 a.jpg''"
proof -
  let ?off = "\<lparr>rename = False, move = False, simulate = False\<rparr>"
  let ?on = "\<lparr>rename = True, move = False, simulate = False\<rparr>"
  have b: "Base ''/s/a.jpg'' = ''a.jpg''" by (simp add: path_defs)
  have g: "getFileTime (\<lambda>bytes. None) (world exState) ''/s/a.jpg'' = (exTimeA, None, False)"
    by (simp add: exState_def ex_time_a)
  have p: "plainElem (Base ''/s/a.jpg'')" by (simp add: b plainElem_def sep_def)
  have r: "removeColons ''20200102T030405 a.jpg'' = ''20200102T030405 a.jpg''"
    by (simp add: removeColons_def)
  from destination_file_name [of ?off "\<lambda>bytes. None" "''/s/a.jpg''" exState exTimeA None "''/d''"]
  have 1: "fst (destFileName (\<lambda>bytes. None) ?off ''/s/a.jpg'' exState) = ''a.jpg''"
    by (simp add: b)
  from destination_file_name [of ?on "\<lambda>bytes. None" "''/s/a.jpg''" exState exTimeA None "''/d''"]
  have 2: "fst (destFileName (\<lambda>bytes. None) ?on ''/s/a.jpg'' exState) = ''20200102T030405 a.jpg''"
    and 3: "Base (destinationOf (\<lambda>bytes. None) ?on ''/d'' ''/s/a.jpg'' exState)
            = ''20200102T030405 a.jpg''"
    using g p by (simp_all add: b ex_format_a r)
  from 1 2 3 g p show ?thesis by simp
qed

subsection \<open>No timestamp for the file\<close>

text \<open>A job that is not simulated counts one copy error exactly when its
  \<open>copyFile\<close> fails.\<close>

lemma materialize_copyErrors:
  assumes "\<not> simulate fl" and "src \<noteq> dst"
  shows "copyErrors (materialize fl src dst st)
         = copyErrors st + (case fst (copyFile (world st) src dst) of
                              None \<Rightarrow> 0 | Some err \<Rightarrow> 1)"
  using assms
  by (auto simp: materialize_def println_def Let_def split: prod.splits option.splits)

text \<open>
  Claim C9, as amended. When renaming is enabled and \<open>getFileTime\<close> returns
  an error for the source, the job prints the error, builds the destination name from the
  clock's time, and goes on to the materialization with the destination path
  made of that name. This path differs from the source path, so the job is
  not skipped: outside simulate mode it calls \<open>copyFile\<close> for the file, once.
  The materialization is completed only when this call succeeds: when it
  fails the job counts one copy error for the file, and the run goes on.
\<close>

theorem timestamp_unavailable:
  assumes "rename fl"
    and "getFileTime X (world st) src = (t, Some e, b)"
    and "dst = Clean (Join [dest, removeColons (Format (fs_clock (world st)) @ '' '' @ Base src)])"
  shows "processHashesJob X fl dest src st = materialize fl src dst (println (ErrorTime e) st)
         \<and> dst \<noteq> src
         \<and> (\<not> simulate fl \<longrightarrow>
              attempted (stdout (processHashesJob X fl dest src st))
                = attempted (stdout st) @ [(src, dst)]
              \<and> copyErrors (processHashesJob X fl dest src st)
                = copyErrors st + (case fst (copyFile (world st) src dst) of
                                     None \<Rightarrow> 0 | Some err \<Rightarrow> 1))"
proof -
  have j: "processHashesJob X fl dest src st = materialize fl src dst (println (ErrorTime e) st)"
    using assms by (simp add: processHashesJob_def destFileName_cases)
  have n: "dst \<noteq> src" using assms(3) renamed_not_source by simp
  have n': "src \<noteq> dst" using n by simp
  have a: "attempted (stdout (materialize fl src dst (println (ErrorTime e) st)))
        = attempted (stdout st) @ [(src, dst)]" if "\<not> simulate fl"
    using materialize_attempted [OF that, of src dst "println (ErrorTime e) st"] n
    by (simp add: println_def attempted_append)
  have c: "copyErrors (materialize fl src dst (println (ErrorTime e) st))
        = copyErrors st + (case fst (copyFile (world st) src dst) of
                             None \<Rightarrow> 0 | Some err \<Rightarrow> 1)" if "\<not> simulate fl"
    using materialize_copyErrors [OF that n', of "println (ErrorTime e) st"]
    by (simp add: println_def)
  from j n a c show ?thesis by simp
qed

text \<open>\<open>/s/u.jpg\<close> cannot be opened; at 2021-06-07 08:09:10 it is hard-linked to
  \<open>/d/20210607T080910 u.jpg\<close>.\<close>

lemma ex_time_u:
  "getFileTime (\<lambda>bytes. None) exWorld ''/s/u.jpg'' = (zeroTime, Some EACCES, False)"
  by (simp add: getFileTime_def path_defs timeFormatLen_def osOpen_def resolve_def
      exWorld_def exFile_def)

lemma ex_copy_u:
  "copyFile exWorld ''/s/u.jpg'' ''/d/20210607T080910 u.jpg''
   = (None, exWorld\<lparr>fs_names := fs_names exWorld @ [(''/d/20210607T080910 u.jpg'', 4)]\<rparr>)"
  by (simp add: ex_eval)

theorem timestamp_unavailable_witness:
  "rename \<lparr>rename = True, move = False, simulate = False\<rparr>
   \<and> getFileTime (\<lambda>bytes. None) (world exState) ''/s/u.jpg'' = (zeroTime, Some EACCES, False)
   \<and> ''/d/20210607T080910 u.jpg''
       = Clean (Join [''/d'', removeColons (Format (fs_clock (world exState)) @ '' ''
                                @ Base ''/s/u.jpg'')])
   \<and> processHashesJob (\<lambda>bytes. None) \<lparr>rename = True, move = False, simulate = False\<rparr>
         ''/d'' ''/s/u.jpg'' exState
       = exState\<lparr>world := exWorld\<lparr>fs_names := fs_names exWorld
                                       @ [(''/d/20210607T080910 u.jpg'', 4)]\<rparr>,
                  stdout := [ErrorTime EACCES,
                             Copying ''/s/u.jpg'' ''/d/20210607T080910 u.jpg'']\<rparr>"
proof -
  let ?fl = "\<lparr>rename = True, move = False, simulate = False\<rparr>"
  have r: "rename ?fl" by simp
  have g: "getFileTime (\<lambda>bytes. None) (world exState) ''/s/u.jpg''
           = (zeroTime, Some EACCES, False)"
    by (simp add: exState_def ex_time_u)
  have c: "fs_clock (world exState) = exNow" by (simp add: exState_def exWorld_def)
  have d: "''/d/20210607T080910 u.jpg''
       = Clean (Join [''/d'', removeColons (Format (fs_clock (world exState)) @ '' ''
                                @ Base ''/s/u.jpg'')])"
    by (simp add: c ex_format_now removeColons_def path_defs)
  have w: "world exState = exWorld" by (simp add: exState_def)
  have "processHashesJob (\<lambda>bytes. None) ?fl ''/d'' ''/s/u.jpg'' exState
        = materialize ?fl ''/s/u.jpg'' ''/d/20210607T080910 u.jpg''
            (println (ErrorTime EACCES) exState)"
    using timestamp_unavailable [OF r g d] by simp
  also have "\<dots> = exState\<lparr>world := exWorld\<lparr>fs_names := fs_names exWorld
                                       @ [(''/d/20210607T080910 u.jpg'', 4)]\<rparr>,
                  stdout := [ErrorTime EACCES,
                             Copying ''/s/u.jpg'' ''/d/20210607T080910 u.jpg'']\<rparr>"
    by (simp add: materialize_def println_def w ex_copy_u) (simp add: exState_def)
  finally show ?thesis using r g d by simp
qed

text \<open>Two calls of \<open>copyFile\<close> that fail: for a source that is no longer there,
  and for a source that cannot be opened, to a directory on another volume.\<close>

lemma ex_time_gone:
  "getFileTime (\<lambda>bytes. None) exWorld ''/s/gone.jpg'' = (zeroTime, Some ENOENT, False)"
  by (simp add: getFileTime_def path_defs timeFormatLen_def osOpen_def resolve_def exWorld_def)

lemma ex_copy_gone:
  "copyFile exWorld ''/s/gone.jpg'' ''/d/20210607T080910 gone.jpg'' = (Some ENOENT, exWorld)"
  by (simp add: ex_eval)

lemma ex_copy_u_x:
  "copyFile exWorld ''/s/u.jpg'' ''/x/20210607T080910 u.jpg'' = (Some EACCES, exWorld)"
  by (simp add: ex_eval)

text \<open>
  Claim C9 as stated has the job complete the materialization. It is not
  always completed. \<open>/s/gone.jpg\<close> is a survivor that has been deleted since
  it was hashed: \<open>getFileTime\<close> cannot open it, the job takes the clock's time
  and builds \<open>/d/20210607T080910 gone.jpg\<close>, and \<open>copyFile\<close> fails on its
  first \<open>os.Stat\<close>. \<open>/s/u.jpg\<close> cannot be opened and \<open>/x\<close> is on another
  volume: the link fails, and so does the copy, which has to open the source.
  In both runs one copy error is counted, the file system is unchanged and
  the destination does not exist.
\<close>

theorem timestamp_unavailable_counterexample:
  "getFileTime (\<lambda>bytes. None) (world exState) ''/s/gone.jpg'' = (zeroTime, Some ENOENT, False)
   \<and> processHashesJob (\<lambda>bytes. None) \<lparr>rename = True, move = False, simulate = False\<rparr>
        ''/d'' ''/s/gone.jpg'' exState
       = exState\<lparr>copyErrors := 1,
                  stdout := [ErrorTime ENOENT,
                             Copying ''/s/gone.jpg'' ''/d/20210607T080910 gone.jpg'',
                             ErrorCopying ''/s/gone.jpg'' ENOENT]\<rparr>
   \<and> contentAt exWorld ''/d/20210607T080910 gone.jpg'' = None
   \<and> getFileTime (\<lambda>bytes. None) (world exState) ''/s/u.jpg'' = (zeroTime, Some EACCES, False)
   \<and> processHashesJob (\<lambda>bytes. None) \<lparr>rename = True, move = False, simulate = False\<rparr>
        ''/x'' ''/s/u.jpg'' exState
       = exState\<lparr>copyErrors := 1,
                  stdout := [ErrorTime EACCES,
                             Copying ''/s/u.jpg'' ''/x/20210607T080910 u.jpg'',
                             ErrorCopying ''/s/u.jpg'' EACCES]\<rparr>
   \<and> contentAt exWorld ''/x/20210607T080910 u.jpg'' = None"
proof -
  let ?fl = "\<lparr>rename = True, move = False, simulate = False\<rparr>"
  have w: "world exState = exWorld" by (simp add: exState_def)
  have c: "fs_clock exWorld = exNow" by (simp add: exWorld_def)
  have d1: "Clean (Join [''/d'', removeColons (Format exNow @ '' '' @ Base ''/s/gone.jpg'')])
            = ''/d/20210607T080910 gone.jpg''"
    by (simp add: ex_format_now removeColons_def path_defs)
  have d2: "Clean (Join [''/x'', removeColons (Format exNow @ '' '' @ Base ''/s/u.jpg'')])
            = ''/x/20210607T080910 u.jpg''"
    by (simp add: ex_format_now removeColons_def path_defs)
  have 1: "processHashesJob (\<lambda>bytes. None) ?fl ''/d'' ''/s/gone.jpg'' exState
       = exState\<lparr>copyErrors := 1,
                  stdout := [ErrorTime ENOENT,
                             Copying ''/s/gone.jpg'' ''/d/20210607T080910 gone.jpg'',
                             ErrorCopying ''/s/gone.jpg'' ENOENT]\<rparr>"
    apply (simp add: processHashesJob_def destFileName_cases w ex_time_gone c)
    apply (simp only: d1 [simplified])
    apply (simp add: materialize_def println_def w ex_copy_gone Let_def)
    apply (simp add: exState_def)
    done
  have 2: "processHashesJob (\<lambda>bytes. None) ?fl ''/x'' ''/s/u.jpg'' exState
       = exState\<lparr>copyErrors := 1,
                  stdout := [ErrorTime EACCES,
                             Copying ''/s/u.jpg'' ''/x/20210607T080910 u.jpg'',
                             ErrorCopying ''/s/u.jpg'' EACCES]\<rparr>"
    apply (simp add: processHashesJob_def destFileName_cases w ex_time_u c)
    apply (simp only: d2 [simplified])
    apply (simp add: materialize_def println_def w ex_copy_u_x Let_def)
    apply (simp add: exState_def)
    done
  have n: "contentAt exWorld ''/d/20210607T080910 gone.jpg'' = None"
    "contentAt exWorld ''/x/20210607T080910 u.jpg'' = None"
    by (simp_all add: contentAt_def resolve_def exWorld_def)
  show ?thesis by (simp add: w ex_time_gone ex_time_u 1 2 n)
qed

subsection \<open>Source and destination are one path\<close>

text \<open>
  Claim C10. When the destination path the job computes is, as a string, the
  source path, the job prints the one line \<open>Skipped\<close> and changes nothing
  else: the file system, \<open>copyErrors\<close> and \<open>removeErrors\<close> are as before. This
  holds for every setting of \<open>rename\<close>, \<open>move\<close> and \<open>simulate\<close>: the
  comparison comes before any of them is looked at. (With renaming, the two
  paths can only be equal when the time was found in the file's name, and then
  \<open>getFileTime\<close> has no error to print.)
\<close>

theorem same_path_skipped:
  assumes "destinationOf X fl dest src st = src"
  shows "processHashesJob X fl dest src st = println (Skipped src src) st
         \<and> world (processHashesJob X fl dest src st) = world st
         \<and> copyErrors (processHashesJob X fl dest src st) = copyErrors st
         \<and> removeErrors (processHashesJob X fl dest src st) = removeErrors st
         \<and> stdout (processHashesJob X fl dest src st) = stdout st @ [Skipped src src]"
proof -
  have "snd (destFileName X fl src st) = st"
  proof (cases "rename fl")
    case False
    then show ?thesis by (simp add: destFileName_cases)
  next
    case True
    obtain t err noRename where g: "getFileTime X (world st) src = (t, err, noRename)"
      by (cases "getFileTime X (world st) src") auto
    show ?thesis
    proof (cases noRename)
      case True
      with g have "err = None" by (auto dest: getFileTime_in_path_no_error)
      with g \<open>rename fl\<close> show ?thesis by (simp add: destFileName_cases)
    next
      case False
      with g \<open>rename fl\<close> assms have False
        using renamed_not_source [of dest _ src]
        by (auto simp: destinationOf_def destFileName_cases split: option.splits)
      then show ?thesis ..
    qed
  qed
  with assms have "processHashesJob X fl dest src st = println (Skipped src src) st"
    by (simp add: processHashesJob_eq materialize_def)
  then show ?thesis by (simp add: println_def)
qed

text \<open>\<open>/d/20200102T030405 a.jpg\<close> with destination \<open>/d\<close>, in move mode with
  renaming.\<close>

theorem same_path_skipped_witness:
  "destinationOf (\<lambda>bytes. None) \<lparr>rename = True, move = True, simulate = False\<rparr>
      ''/d'' ''/d/20200102T030405 a.jpg'' exState = ''/d/20200102T030405 a.jpg''
   \<and> processHashesJob (\<lambda>bytes. None) \<lparr>rename = True, move = True, simulate = False\<rparr>
        ''/d'' ''/d/20200102T030405 a.jpg'' exState
      = exState\<lparr>stdout := [Skipped ''/d/20200102T030405 a.jpg'' ''/d/20200102T030405 a.jpg'']\<rparr>"
proof -
  let ?fl = "\<lparr>rename = True, move = True, simulate = False\<rparr>"
  have b: "Base ''/d/20200102T030405 a.jpg'' = ''20200102T030405 a.jpg''"
    by (simp add: path_defs)
  have g: "getFileTime (\<lambda>bytes. None) (world exState) ''/d/20200102T030405 a.jpg''
           = (exTimeA, None, True)"
    by (simp add: getFileTime_def b timeFormatLen_def ex_parse)
  have d: "destinationOf (\<lambda>bytes. None) ?fl ''/d'' ''/d/20200102T030405 a.jpg'' exState
           = ''/d/20200102T030405 a.jpg''"
    by (simp add: destinationOf_def destFileName_cases g b) (simp add: path_defs)
  from same_path_skipped [OF d] d show ?thesis
    by (simp add: println_def exState_def)
qed


subsection \<open>A file that cannot be read\<close>

text \<open>
  Claim C1 says that a file whose contents cannot be read is logged and left
  out of the index. \<open>processFileHash\<close> prints the error and does not return:
  it hashes the empty data it got. In the concrete file system \<open>/s/u.jpg\<close> is
  among the files of folder \<open>/s\<close> that are submitted and cannot be read. Run
  first, its job records \<open>/s/u.jpg\<close> in the index under the digest of the
  empty data; run after the job of the empty file \<open>/s/e.jpg\<close>, it finds that
  digest in the index and is counted as a duplicate of \<open>/s/e.jpg\<close>. This holds
  whatever the digest function is.
\<close>

theorem unreadable_file_is_indexed:
  "(''/s'', ''u.jpg'') \<in> set (folderJobs exWorld ''/s'')
   \<and> ReadFile exWorld ''/s/u.jpg'' = Inl EACCES
   \<and> processFileHash Sum512 ''/s'' ''u.jpg'' exState
       = exState\<lparr>hashes := [(Sum512 [], ''/s/u.jpg'')],
                  stdout := [ErrorReading ''/s/u.jpg'' EACCES]\<rparr>
   \<and> hashJobs Sum512 [(''/s'', ''e.jpg''), (''/s'', ''u.jpg'')] exState
       = exState\<lparr>hashes := [(Sum512 [], ''/s/e.jpg'')],
                  collisions := 1,
                  stdout := [ErrorReading ''/s/u.jpg'' EACCES,
                             Duplicate 1 ''/s/u.jpg'' ''/s/e.jpg'']\<rparr>"
proof -
  have j: "Join [''/s'', ''u.jpg''] = ''/s/u.jpg''" "Join [''/s'', ''e.jpg''] = ''/s/e.jpg''"
    by (simp_all add: path_defs)
  have r: "ReadFile exWorld ''/s/u.jpg'' = Inl EACCES"
    by (simp add: ReadFile_def resolve_def exWorld_def exFile_def)
  have e: "ReadFile exWorld ''/s/e.jpg'' = Inr []"
    by (simp add: ReadFile_def resolve_def exWorld_def exFile_def)
  have f: "(''/s'', ''u.jpg'') \<in> set (folderJobs exWorld ''/s'')"
    by (simp add: folderJobs_def ReadDir_def resolve_def exWorld_def exDir_def exFile_def
        exDevice_def entryIsDir_def parentDir_def path_defs Ext_def lowerChar_def
        extensions_def)
  have 1: "processFileHash Sum512 ''/s'' ''u.jpg'' exState
       = exState\<lparr>hashes := [(Sum512 [], ''/s/u.jpg'')],
                  stdout := [ErrorReading ''/s/u.jpg'' EACCES]\<rparr>"
    by (simp add: processFileHash_def Let_def j println_def exState_def r)
  have 2: "processFileHash Sum512 ''/s'' ''e.jpg'' exState
       = exState\<lparr>hashes := [(Sum512 [], ''/s/e.jpg'')]\<rparr>"
    by (simp add: processFileHash_def Let_def j println_def exState_def e)
  have 3: "processFileHash Sum512 ''/s'' ''u.jpg''
             (exState\<lparr>hashes := [(Sum512 [], ''/s/e.jpg'')]\<rparr>)
       = exState\<lparr>hashes := [(Sum512 [], ''/s/e.jpg'')],
                  collisions := 1,
                  stdout := [ErrorReading ''/s/u.jpg'' EACCES,
                             Duplicate 1 ''/s/u.jpg'' ''/s/e.jpg'']\<rparr>"
    by (simp add: processFileHash_def Let_def j println_def exState_def r)
  from f r 1 2 3 show ?thesis by (simp add: hashJobs_def)
qed


subsection \<open>Files with the same content\<close>

lemma processFileHash_step:
  "processFileHash H path fName st =
     (let f = jobPath (path, fName); d = H (fileData (world st) f); st1 = logRead f st
      in case map_of (hashes st) d of
           Some current \<Rightarrow>
             st1\<lparr>collisions := collisions st + 1,
                  stdout := stdout st1 @ [Duplicate (collisions st + 1) f current]\<rparr>
         | None \<Rightarrow> st1\<lparr>hashes := hashes st @ [(d, f)]\<rparr>)"
  by (auto simp: processFileHash_def Let_def jobPath_def fileData_def logRead_def println_def
      split: sum.splits option.splits)

lemma logRead_frame:
  "world (logRead f st) = world st" "hashes (logRead f st) = hashes st"
  and logRead_dups: "filter (isDuplicateOf P) (stdout (logRead f st)) = filter (isDuplicateOf P) (stdout st)"
  by (auto simp: logRead_def println_def split: sum.splits)

lemma processFileHash_world: "world (processFileHash H path fName st) = world st"
  by (simp add: processFileHash_step Let_def logRead_frame split: option.splits)

lemma hashJobs_Nil: "hashJobs H [] st = st"
  by (simp add: hashJobs_def)

lemma hashJobs_Cons:
  "hashJobs H (j # js) st = hashJobs H js (processFileHash H (fst j) (snd j) st)"
  by (simp add: hashJobs_def split: prod.splits)

lemma map_of_None_filter:
  "map_of xs d = None \<Longrightarrow> filter (\<lambda>(k, v). k = d) xs = []"
  by (induction xs) (auto split: if_splits)

lemma map_of_Some_filter:
  "map_of xs d = Some p \<Longrightarrow> filter (\<lambda>(k, v). k = d) xs \<noteq> []"
  by (induction xs) (auto split: if_splits)

text \<open>The entries for a digest after the jobs: those that were there, or else the
  one of the first job that yields the digest.\<close>

lemma hashJobs_entries:
  "filter (\<lambda>(k, v). k = d) (hashes (hashJobs H js st)) =
     (case map_of (hashes st) d of
        Some p \<Rightarrow> filter (\<lambda>(k, v). k = d) (hashes st)
      | None \<Rightarrow>
          (case filter (\<lambda>j. H (fileData (world st) (jobPath j)) = d) js of
             [] \<Rightarrow> []
           | j # _ \<Rightarrow> [(d, jobPath j)]))"
proof (induction js arbitrary: st)
  case Nil
  then show ?case by (simp add: hashJobs_Nil map_of_None_filter split: option.splits)
next
  case (Cons j js)
  let ?st1 = "processFileHash H (fst j) (snd j) st"
  have w: "world ?st1 = world st" by (rule processFileHash_world)
  show ?case
    unfolding hashJobs_Cons Cons.IH [of ?st1] w
    by (auto simp: processFileHash_step Let_def logRead_frame map_of_None_filter
        split: option.splits list.splits)
qed

lemma hashJobs_lookup:
  "map_of (hashes (hashJobs H js st)) d =
     (case map_of (hashes st) d of
        Some p \<Rightarrow> Some p
      | None \<Rightarrow>
          (case filter (\<lambda>j. H (fileData (world st) (jobPath j)) = d) js of
             [] \<Rightarrow> None
           | j # _ \<Rightarrow> Some (jobPath j)))"
proof (induction js arbitrary: st)
  case Nil
  then show ?case by (simp add: hashJobs_Nil split: option.splits)
next
  case (Cons j js)
  let ?st1 = "processFileHash H (fst j) (snd j) st"
  have w: "world ?st1 = world st" by (rule processFileHash_world)
  show ?case
    unfolding hashJobs_Cons Cons.IH [of ?st1] w
    by (auto simp: processFileHash_step Let_def logRead_frame map_add_def
        split: option.splits list.splits)
qed

lemma hashJobs_duplicates:
  assumes "\<forall>j \<in> set js. P (jobPath j) = (H (fileData (world st) (jobPath j)) = d)"
  shows "length (filter (isDuplicateOf P) (stdout (hashJobs H js st))) =
           length (filter (isDuplicateOf P) (stdout st))
           + (length (filter (\<lambda>j. H (fileData (world st) (jobPath j)) = d) js)
              - (case map_of (hashes st) d of None \<Rightarrow> 1 | Some p \<Rightarrow> 0))"
  using assms
proof (induction js arbitrary: st)
  case Nil
  then show ?case by (simp add: hashJobs_Nil)
next
  case (Cons j js)
  let ?st1 = "processFileHash H (fst j) (snd j) st"
  have w: "world ?st1 = world st" by (rule processFileHash_world)
  have ih: "length (filter (isDuplicateOf P) (stdout (hashJobs H js ?st1))) =
           length (filter (isDuplicateOf P) (stdout ?st1))
           + (length (filter (\<lambda>j. H (fileData (world st) (jobPath j)) = d) js)
              - (case map_of (hashes ?st1) d of None \<Rightarrow> 1 | Some p \<Rightarrow> 0))"
    using Cons.IH [of ?st1] Cons.prems by (simp add: w)
  have pj: "P (jobPath j) = (H (fileData (world st) (jobPath j)) = d)"
    using Cons.prems by simp
  show ?case
    unfolding hashJobs_Cons ih
    using pj
    by (auto simp: processFileHash_step Let_def logRead_frame logRead_dups map_add_def
        split: option.splits)
qed

lemma processFileHash_stdout:
  "\<exists>ls. stdout (processFileHash H path fName st) = stdout st @ ls"
  by (auto simp: processFileHash_step Let_def logRead_def println_def
      split: option.splits sum.splits)

lemma hashJobs_stdout: "\<exists>ls. stdout (hashJobs H js st) = stdout st @ ls"
proof (induction js arbitrary: st)
  case Nil
  then show ?case by (simp add: hashJobs_Nil)
next
  case (Cons j js)
  obtain l1 where "stdout (processFileHash H (fst j) (snd j) st) = stdout st @ l1"
    using processFileHash_stdout by blast
  moreover obtain l2 where "stdout (hashJobs H js (processFileHash H (fst j) (snd j) st))
      = stdout (processFileHash H (fst j) (snd j) st) @ l2"
    using Cons.IH by blast
  ultimately show ?case by (simp add: hashJobs_Cons)
qed

lemma printed_append: "stdout st' = stdout st @ ls \<Longrightarrow> printed st st' = ls"
  by (simp add: printed_def)

lemma chain_counts:
  fixes c0 c1 c2 :: "'a::len word"
  assumes "c2 + x1 = c1 + x2" and "c1 + x0 = c0 + x1"
  shows "c2 + x0 = c0 + x2"
proof -
  have "c2 + x0 + x1 = (c2 + x1) + x0" by (simp add: add.commute add.left_commute)
  also have "\<dots> = (c1 + x0) + x2" using assms(1) by (simp add: add.commute add.left_commute)
  also have "\<dots> = c0 + x2 + x1" using assms(2) by (simp add: add.commute add.left_commute)
  finally show ?thesis by simp
qed

lemma logRead_collisions: "collisions (logRead f st) = collisions st"
  by (simp add: logRead_def println_def split: sum.splits)

lemma processFileHash_collisions:
  "collisions (processFileHash H path fName st)
     + of_nat (length (filter (isDuplicateOf (\<lambda>f. True)) (stdout st)))
   = collisions st
     + of_nat (length (filter (isDuplicateOf (\<lambda>f. True))
                        (stdout (processFileHash H path fName st))))"
proof (cases "map_of (hashes st) (H (fileData (world st) (jobPath (path, fName))))")
  case None
  then show ?thesis
    by (simp add: processFileHash_step Let_def logRead_dups logRead_collisions)
next
  case (Some p)
  then show ?thesis
    by (simp add: processFileHash_step Let_def logRead_dups logRead_collisions)
qed

lemma hashJobs_collisions:
  "collisions (hashJobs H js st) + of_nat (length (filter (isDuplicateOf (\<lambda>f. True)) (stdout st)))
   = collisions st
     + of_nat (length (filter (isDuplicateOf (\<lambda>f. True)) (stdout (hashJobs H js st))))"
proof (induction js arbitrary: st)
  case Nil
  then show ?case by (simp add: hashJobs_Nil)
next
  case (Cons j js)
  show ?case
    unfolding hashJobs_Cons
    by (rule chain_counts [OF Cons.IH processFileHash_collisions])
qed

text \<open>
  What the index guarantees. The hashing phase starts with an empty index and
  runs the jobs in any order (\<open>jobs\<close> is the order in which they take the
  mutex). Let \<open>files\<close> be the jobs whose file is read with the content
  \<open>content\<close>, at least two of them, and let every other job yield a digest
  other than that of \<open>content\<close>. Then after the phase the index has exactly
  one entry for the digest of \<open>content\<close>; the path recorded there is the path
  of one of \<open>files\<close>; the phase printed \<open>length files - 1\<close> duplicate lines
  about these files, each printed with one increment of \<open>collisions\<close>; and
  \<open>collisions\<close> grew by the number of duplicate lines of the phase. The
  hypothesis on the other jobs is not always met by the program: a file that
  cannot be read is hashed as the empty input, as shown below.
\<close>

theorem first_seen_wins:
  assumes "hashes st = []"
    and "files = filter (\<lambda>j. ReadFile (world st) (jobPath j) = Inr content) jobs"
    and "2 \<le> length files"
    and "\<forall>j \<in> set jobs. ReadFile (world st) (jobPath j) \<noteq> Inr content \<longrightarrow>
           Sum512 (fileData (world st) (jobPath j)) \<noteq> Sum512 content"
    and "st' = hashJobs Sum512 jobs st"
  shows "length (filter (\<lambda>(digest, path). digest = Sum512 content) (hashes st')) = 1
         \<and> (\<exists>j \<in> set files. map_of (hashes st') (Sum512 content) = Some (jobPath j))
         \<and> length (filter (isDuplicateOf (\<lambda>f. ReadFile (world st) f = Inr content))
                     (printed st st')) = length files - 1
         \<and> collisions st'
             = collisions st
               + of_nat (length (filter (isDuplicateOf (\<lambda>f. True)) (printed st st')))"
proof -
  let ?d = "Sum512 content"
  let ?P = "isDuplicateOf (\<lambda>f. ReadFile (world st) f = Inr content)"
  have eq: "(Sum512 (fileData (world st) (jobPath j)) = ?d)
            = (ReadFile (world st) (jobPath j) = Inr content)" if "j \<in> set jobs" for j
    using that assms(4) by (auto simp: fileData_def)
  then have f: "filter (\<lambda>j. Sum512 (fileData (world st) (jobPath j)) = ?d) jobs = files"
    unfolding assms(2) by (intro filter_cong) auto
  obtain j js where fs: "files = j # js" using assms(3) by (cases files) auto
  obtain ls where ls: "stdout st' = stdout st @ ls"
    unfolding assms(5) using hashJobs_stdout by blast
  then have pr: "printed st st' = ls" by (rule printed_append)
  have 1: "length (filter (\<lambda>(digest, path). digest = ?d) (hashes st')) = 1"
    unfolding assms(5) hashJobs_entries f by (simp add: assms(1) fs)
  have 2: "map_of (hashes st') ?d = Some (jobPath j)"
    unfolding assms(5) hashJobs_lookup f by (simp add: assms(1) fs)
  have "length (filter ?P (stdout st')) = length (filter ?P (stdout st)) + (length files - 1)"
    unfolding assms(5)
    using hashJobs_duplicates [of jobs "\<lambda>f. ReadFile (world st) f = Inr content" Sum512 st ?d]
      eq
    by (simp add: f assms(1))
  then have 3: "length (filter ?P (printed st st')) = length files - 1"
    by (simp add: ls pr)
  have "collisions st' + of_nat (length (filter (isDuplicateOf (\<lambda>f. True)) (stdout st)))
        = collisions st
          + of_nat (length (filter (isDuplicateOf (\<lambda>f. True)) (stdout st @ ls)))"
    using hashJobs_collisions [of Sum512 jobs st] by (simp only: assms(5) [symmetric] ls)
  then have 4: "collisions st'
             = collisions st
               + of_nat (length (filter (isDuplicateOf (\<lambda>f. True)) (printed st st')))"
    by (simp add: pr)
  from 1 2 3 4 fs show ?thesis by auto
qed

text \<open>\<open>/s/a.jpg\<close> and \<open>/s/c.JPG\<close> hold the same bytes, \<open>/s/b.jpg\<close> others. The
  digest is instantiated with the identity, which has no collisions.\<close>

lemma ex_read:
  "ReadFile exWorld ''/s/a.jpg'' = Inr ''AAA''"
  "ReadFile exWorld ''/s/b.jpg'' = Inr ''BB''"
  "ReadFile exWorld ''/s/c.JPG'' = Inr ''AAA''"
  by (simp_all add: ReadFile_def resolve_def exWorld_def exFile_def)

lemma ex_job_paths:
  "jobPath (''/s'', ''a.jpg'') = ''/s/a.jpg''"
  "jobPath (''/s'', ''b.jpg'') = ''/s/b.jpg''"
  "jobPath (''/s'', ''c.JPG'') = ''/s/c.JPG''"
  by (simp_all add: jobPath_def path_defs)

lemma ex_hash_run:
  "hashJobs (\<lambda>data. data) [(''/s'', ''a.jpg''), (''/s'', ''b.jpg''), (''/s'', ''c.JPG'')] exState
   = exState\<lparr>hashes := [(''AAA'', ''/s/a.jpg''), (''BB'', ''/s/b.jpg'')],
              collisions := 1,
              stdout := [Duplicate 1 ''/s/c.JPG'' ''/s/a.jpg'']\<rparr>"
proof -
  have w: "world exState = exWorld" by (simp add: exState_def)
  have 1: "processFileHash (\<lambda>data. data) ''/s'' ''a.jpg'' exState
           = exState\<lparr>hashes := [(''AAA'', ''/s/a.jpg'')]\<rparr>"
    by (simp add: processFileHash_step Let_def ex_job_paths logRead_def ex_read fileData_def
        exState_def)
  have 2: "processFileHash (\<lambda>data. data) ''/s'' ''b.jpg''
             (exState\<lparr>hashes := [(''AAA'', ''/s/a.jpg'')]\<rparr>)
           = exState\<lparr>hashes := [(''AAA'', ''/s/a.jpg''), (''BB'', ''/s/b.jpg'')]\<rparr>"
    by (simp add: processFileHash_step Let_def ex_job_paths logRead_def ex_read fileData_def
        exState_def)
  have 3: "processFileHash (\<lambda>data. data) ''/s'' ''c.JPG''
             (exState\<lparr>hashes := [(''AAA'', ''/s/a.jpg''), (''BB'', ''/s/b.jpg'')]\<rparr>)
           = exState\<lparr>hashes := [(''AAA'', ''/s/a.jpg''), (''BB'', ''/s/b.jpg'')],
              collisions := 1,
              stdout := [Duplicate 1 ''/s/c.JPG'' ''/s/a.jpg'']\<rparr>"
    by (simp add: processFileHash_step Let_def ex_job_paths logRead_def ex_read fileData_def
        exState_def)
  show ?thesis by (simp add: hashJobs_def 1 2 3)
qed

theorem first_seen_wins_witness:
  "2 \<le> length [(''/s'', ''a.jpg''), (''/s'', ''c.JPG'')]
   \<and> length (filter (\<lambda>(digest, path). digest = ''AAA'')
        (hashes (hashJobs (\<lambda>data. data)
           [(''/s'', ''a.jpg''), (''/s'', ''b.jpg''), (''/s'', ''c.JPG'')] exState))) = 1
   \<and> map_of (hashes (hashJobs (\<lambda>data. data)
           [(''/s'', ''a.jpg''), (''/s'', ''b.jpg''), (''/s'', ''c.JPG'')] exState)) ''AAA''
       = Some ''/s/a.jpg''
   \<and> length (filter (isDuplicateOf (\<lambda>f. ReadFile exWorld f = Inr ''AAA''))
        (printed exState (hashJobs (\<lambda>data. data)
           [(''/s'', ''a.jpg''), (''/s'', ''b.jpg''), (''/s'', ''c.JPG'')] exState))) = 1
   \<and> collisions (hashJobs (\<lambda>data. data)
           [(''/s'', ''a.jpg''), (''/s'', ''b.jpg''), (''/s'', ''c.JPG'')] exState) = 1"
proof -
  let ?jobs = "[(''/s'', ''a.jpg''), (''/s'', ''b.jpg''), (''/s'', ''c.JPG'')]"
  let ?files = "[(''/s'', ''a.jpg''), (''/s'', ''c.JPG'')]"
  let ?st' = "hashJobs (\<lambda>data. data) ?jobs exState"
  have w: "world exState = exWorld" by (simp add: exState_def)
  have h: "hashes exState = []" by (simp add: exState_def)
  have f: "?files = filter (\<lambda>j. ReadFile (world exState) (jobPath j) = Inr ''AAA'') ?jobs"
    by (simp add: w ex_job_paths ex_read)
  have n: "2 \<le> length ?files" by simp
  have o: "\<forall>j \<in> set ?jobs. ReadFile (world exState) (jobPath j) \<noteq> Inr ''AAA'' \<longrightarrow>
             (\<lambda>data. data) (fileData (world exState) (jobPath j)) \<noteq> (\<lambda>data. data) ''AAA''"
    by (simp add: w ex_job_paths ex_read fileData_def)
  from first_seen_wins [OF h f n o refl]
  have "length (filter (\<lambda>(digest, path). digest = ''AAA'') (hashes ?st')) = 1"
    and "length (filter (isDuplicateOf (\<lambda>f. ReadFile exWorld f = Inr ''AAA''))
           (printed exState ?st')) = 1"
    by (simp_all add: w)
  moreover have "map_of (hashes ?st') ''AAA'' = Some ''/s/a.jpg''"
    and "collisions ?st' = 1"
    by (simp_all add: ex_hash_run)
  ultimately show ?thesis by simp
qed

text \<open>
  Claim C3. For N \<ge> 2 files with the same content the index is to hold one
  entry for their digest, recording the path of one of the N files, with
  N - 1 increments of \<open>collisions\<close> for that digest. The program does not
  keep this when the run also holds a file that cannot be read:
  \<open>processFileHash\<close> prints the error of \<open>ioutil.ReadFile\<close> and goes on with no
  data, so the file is given the digest of the empty input. \<open>/s/e.jpg\<close> and
  \<open>/s/f.jpg\<close> are the N = 2 files with the same (empty) content and
  \<open>/s/u.jpg\<close> cannot be read. When \<open>/s/u.jpg\<close> takes the mutex first, the one
  entry for the digest of the empty content records \<open>/s/u.jpg\<close>, which is
  none of the two files, and \<open>collisions\<close> is incremented twice for that
  digest, not once. This holds whatever the digest function is.
\<close>

theorem unreadable_file_takes_index_entry:
  "ReadFile exWorld ''/s/e.jpg'' = Inr []
   \<and> ReadFile exWorld ''/s/f.jpg'' = Inr []
   \<and> ReadFile exWorld ''/s/u.jpg'' = Inl EACCES
   \<and> hashJobs Sum512 [(''/s'', ''u.jpg''), (''/s'', ''e.jpg''), (''/s'', ''f.jpg'')] exState
       = exState\<lparr>hashes := [(Sum512 [], ''/s/u.jpg'')],
                  collisions := 2,
                  stdout := [ErrorReading ''/s/u.jpg'' EACCES,
                             Duplicate 1 ''/s/e.jpg'' ''/s/u.jpg'',
                             Duplicate 2 ''/s/f.jpg'' ''/s/u.jpg'']\<rparr>"
proof -
  have j: "Join [''/s'', ''u.jpg''] = ''/s/u.jpg''" "Join [''/s'', ''e.jpg''] = ''/s/e.jpg''"
    "Join [''/s'', ''f.jpg''] = ''/s/f.jpg''"
    by (simp_all add: path_defs)
  have r: "ReadFile exWorld ''/s/u.jpg'' = Inl EACCES"
    by (simp add: ReadFile_def resolve_def exWorld_def exFile_def)
  have e: "ReadFile exWorld ''/s/e.jpg'' = Inr []" "ReadFile exWorld ''/s/f.jpg'' = Inr []"
    by (simp_all add: ReadFile_def resolve_def exWorld_def exFile_def)
  have 1: "processFileHash Sum512 ''/s'' ''u.jpg'' exState
       = exState\<lparr>hashes := [(Sum512 [], ''/s/u.jpg'')],
                  stdout := [ErrorReading ''/s/u.jpg'' EACCES]\<rparr>"
    by (simp add: processFileHash_def Let_def j println_def exState_def r)
  have 2: "processFileHash Sum512 ''/s'' ''e.jpg''
             (exState\<lparr>hashes := [(Sum512 [], ''/s/u.jpg'')],
                  stdout := [ErrorReading ''/s/u.jpg'' EACCES]\<rparr>)
       = exState\<lparr>hashes := [(Sum512 [], ''/s/u.jpg'')],
                  collisions := 1,
                  stdout := [ErrorReading ''/s/u.jpg'' EACCES,
                             Duplicate 1 ''/s/e.jpg'' ''/s/u.jpg'']\<rparr>"
    by (simp add: processFileHash_def Let_def j println_def exState_def e)
  have 3: "processFileHash Sum512 ''/s'' ''f.jpg''
             (exState\<lparr>hashes := [(Sum512 [], ''/s/u.jpg'')],
                  collisions := 1,
                  stdout := [ErrorReading ''/s/u.jpg'' EACCES,
                             Duplicate 1 ''/s/e.jpg'' ''/s/u.jpg'']\<rparr>)
       = exState\<lparr>hashes := [(Sum512 [], ''/s/u.jpg'')],
                  collisions := 2,
                  stdout := [ErrorReading ''/s/u.jpg'' EACCES,
                             Duplicate 1 ''/s/e.jpg'' ''/s/u.jpg'',
                             Duplicate 2 ''/s/f.jpg'' ''/s/u.jpg'']\<rparr>"
    by (simp add: processFileHash_def Let_def j println_def exState_def e)
  from r e 1 2 3 show ?thesis by (simp add: hashJobs_def)
qed


subsection \<open>Simulate mode\<close>

lemma destFileName_simulate:
  "destFileName X (fl\<lparr>simulate := b\<rparr>) src st = destFileName X fl src st"
  by (simp add: destFileName_cases)

lemma destinationOf_simulate:
  "destinationOf X (fl\<lparr>simulate := b\<rparr>) dest src st = destinationOf X fl dest src st"
  by (simp add: destinationOf_def destFileName_simulate)

lemma destFileName_lines:
  "\<exists>ls. stdout (snd (destFileName X fl src st)) = stdout st @ ls
        \<and> reported ls = [] \<and> attempted ls = []"
  by (auto simp: destFileName_cases println_def split: prod.splits option.splits)

lemma materialize_lines:
  "\<exists>ls. stdout (materialize fl src dst st) = stdout st @ ls
        \<and> reported ls = (if simulate fl \<and> src \<noteq> dst then [(src, dst)] else [])
        \<and> attempted ls = (if \<not> simulate fl \<and> src \<noteq> dst then [(src, dst)] else [])"
  by (auto simp: materialize_def println_def Let_def split: prod.splits option.splits)

lemma job_lines:
  "\<exists>ls. stdout (processHashesJob X fl dest v st) = stdout st @ ls
        \<and> reported ls = (if simulate fl \<and> v \<noteq> destinationOf X fl dest v st
                          then [(v, destinationOf X fl dest v st)] else [])
        \<and> attempted ls = (if \<not> simulate fl \<and> v \<noteq> destinationOf X fl dest v st
                           then [(v, destinationOf X fl dest v st)] else [])"
proof -
  obtain l1 where 1: "stdout (snd (destFileName X fl v st)) = stdout st @ l1"
    "reported l1 = []" "attempted l1 = []"
    using destFileName_lines by blast
  obtain l2 where 2: "stdout (processHashesJob X fl dest v st)
                      = stdout (snd (destFileName X fl v st)) @ l2"
    "reported l2 = (if simulate fl \<and> v \<noteq> destinationOf X fl dest v st
                          then [(v, destinationOf X fl dest v st)] else [])"
    "attempted l2 = (if \<not> simulate fl \<and> v \<noteq> destinationOf X fl dest v st
                           then [(v, destinationOf X fl dest v st)] else [])"
    unfolding processHashesJob_eq using materialize_lines by blast
  have "stdout (processHashesJob X fl dest v st) = stdout st @ (l1 @ l2)"
    by (simp add: 1 2)
  moreover have "reported (l1 @ l2) = reported l2" "attempted (l1 @ l2) = attempted l2"
    by (simp_all add: reported_append attempted_append 1)
  ultimately show ?thesis using 2(2,3) by metis
qed

lemma job_simulate_frame:
  assumes "simulate fl"
  shows "world (processHashesJob X fl dest v st) = world st"
    and "copyErrors (processHashesJob X fl dest v st) = copyErrors st"
    and "removeErrors (processHashesJob X fl dest v st) = removeErrors st"
  using assms
  by (simp_all add: processHashesJob_eq materialize_def println_def destFileName_frame)

lemma processJobs_Nil: "processJobs X fl dest [] st = st"
  by (simp add: processJobs_def)

lemma processJobs_Cons:
  "processJobs X fl dest (v # vs) st = processJobs X fl dest vs (processHashesJob X fl dest v st)"
  by (simp add: processJobs_def)

lemma processJobs_simulate_frame:
  assumes "simulate fl"
  shows "world (processJobs X fl dest vs st) = world st
         \<and> copyErrors (processJobs X fl dest vs st) = copyErrors st
         \<and> removeErrors (processJobs X fl dest vs st) = removeErrors st"
  by (induction vs arbitrary: st)
    (simp_all add: processJobs_Nil processJobs_Cons job_simulate_frame [OF assms])

lemma processJobs_simulate_lines:
  assumes "simulate fl"
  shows "\<exists>ls. stdout (processJobs X fl dest vs st) = stdout st @ ls \<and> attempted ls = []"
proof (induction vs arbitrary: st)
  case Nil
  then show ?case by (simp add: processJobs_Nil)
next
  case (Cons v vs)
  obtain l1 where 1: "stdout (processHashesJob X fl dest v st) = stdout st @ l1"
    "attempted l1 = []"
    using job_lines [of X fl dest v st] assms by auto
  obtain l2 where 2: "stdout (processJobs X fl dest vs (processHashesJob X fl dest v st))
      = stdout (processHashesJob X fl dest v st) @ l2" "attempted l2 = []"
    using Cons.IH by blast
  have "stdout (processJobs X fl dest (v # vs) st) = stdout st @ (l1 @ l2)"
    by (simp add: processJobs_Cons 1 2)
  moreover have "attempted (l1 @ l2) = []" by (simp add: attempted_append 1 2)
  ultimately show ?case by blast
qed

text \<open>Without renaming the destination depends on the source path alone.\<close>

lemma destinationOf_no_rename:
  "\<not> rename fl \<Longrightarrow> destinationOf X fl dest v st = Clean (Join [dest, Base v])"
  by (simp add: destinationOf_def destFileName_cases)

lemma processJobs_no_rename_lines:
  assumes "\<not> rename fl"
  shows "\<exists>ls. stdout (processJobs X fl dest vs st) = stdout st @ ls
          \<and> reported ls = (if simulate fl
               then concat (map (\<lambda>v. if v = Clean (Join [dest, Base v]) then []
                                      else [(v, Clean (Join [dest, Base v]))]) vs)
               else [])
          \<and> attempted ls = (if simulate fl then []
               else concat (map (\<lambda>v. if v = Clean (Join [dest, Base v]) then []
                                      else [(v, Clean (Join [dest, Base v]))]) vs))"
proof (induction vs arbitrary: st)
  case Nil
  then show ?case by (simp add: processJobs_Nil)
next
  case (Cons v vs)
  let ?d = "Clean (Join [dest, Base v])"
  let ?M = "\<lambda>vs. concat (map (\<lambda>v. if v = Clean (Join [dest, Base v]) then []
                                      else [(v, Clean (Join [dest, Base v]))]) vs)"
  obtain l1 where 1: "stdout (processHashesJob X fl dest v st) = stdout st @ l1"
    "reported l1 = (if simulate fl \<and> v \<noteq> ?d then [(v, ?d)] else [])"
    "attempted l1 = (if \<not> simulate fl \<and> v \<noteq> ?d then [(v, ?d)] else [])"
    using job_lines [of X fl dest v st] by (auto simp: destinationOf_no_rename [OF assms])
  obtain l2 where 2: "stdout (processJobs X fl dest vs (processHashesJob X fl dest v st))
      = stdout (processHashesJob X fl dest v st) @ l2"
    "reported l2 = (if simulate fl then ?M vs else [])"
    "attempted l2 = (if simulate fl then [] else ?M vs)"
    using Cons.IH by blast
  have "stdout (processJobs X fl dest (v # vs) st) = stdout st @ (l1 @ l2)"
    by (simp add: processJobs_Cons 1 2)
  moreover have "reported (l1 @ l2) = (if simulate fl then ?M (v # vs) else [])"
    by (simp add: reported_append 1 2)
  moreover have "attempted (l1 @ l2) = (if simulate fl then [] else ?M (v # vs))"
    by (simp add: attempted_append 1 2)
  ultimately show ?case by blast
qed

text \<open>
  Claim C4, as amended. A run in simulate mode leaves the file system and the
  error counters as they were and never calls \<open>copyFile\<close>, for every list of
  surviving files, every order and every setting of the other flags. Each of
  its jobs reports the mapping that the same job without \<open>simulate\<close>, started
  in the same state, calls \<open>copyFile\<close> with. With renaming disabled the
  mappings a whole run reports are those the run without \<open>simulate\<close> calls
  \<open>copyFile\<close> with, in the same order.
\<close>

theorem simulate_reports_mappings:
  assumes "simulate fl" and "real = fl\<lparr>simulate := False\<rparr>"
  shows "world (processJobs X fl dest vs st) = world st
         \<and> copyErrors (processJobs X fl dest vs st) = copyErrors st
         \<and> removeErrors (processJobs X fl dest vs st) = removeErrors st
         \<and> attempted (printed st (processJobs X fl dest vs st)) = []
         \<and> reported (printed st (processHashesJob X fl dest v st))
             = attempted (printed st (processHashesJob X real dest v st))
         \<and> (\<not> rename fl \<longrightarrow>
              reported (printed st (processJobs X fl dest vs st))
                = attempted (printed st (processJobs X real dest vs st)))"
proof -
  have r: "\<not> simulate real" "rename real = rename fl" by (simp_all add: assms(2))
  have d: "destinationOf X real dest v st = destinationOf X fl dest v st"
    unfolding assms(2) by (rule destinationOf_simulate)
  obtain ls where "stdout (processJobs X fl dest vs st) = stdout st @ ls" "attempted ls = []"
    using processJobs_simulate_lines [OF assms(1)] by blast
  then have 1: "attempted (printed st (processJobs X fl dest vs st)) = []"
    by (simp add: printed_def)
  obtain a where a: "stdout (processHashesJob X fl dest v st) = stdout st @ a"
    "reported a = (if v \<noteq> destinationOf X fl dest v st
                   then [(v, destinationOf X fl dest v st)] else [])"
    using job_lines [of X fl dest v st] assms(1) by auto
  obtain b where b: "stdout (processHashesJob X real dest v st) = stdout st @ b"
    "attempted b = (if v \<noteq> destinationOf X fl dest v st
                   then [(v, destinationOf X fl dest v st)] else [])"
    using job_lines [of X real dest v st] r(1) d by auto
  have 2: "reported (printed st (processHashesJob X fl dest v st))
             = attempted (printed st (processHashesJob X real dest v st))"
    by (simp add: printed_def a b)
  have 3: "reported (printed st (processJobs X fl dest vs st))
                = attempted (printed st (processJobs X real dest vs st))" if nr: "\<not> rename fl"
  proof -
    obtain p where p: "stdout (processJobs X fl dest vs st) = stdout st @ p"
      "reported p = concat (map (\<lambda>v. if v = Clean (Join [dest, Base v]) then []
                                      else [(v, Clean (Join [dest, Base v]))]) vs)"
      using processJobs_no_rename_lines [OF nr, of X dest vs st] assms(1) by auto
    obtain q where q: "stdout (processJobs X real dest vs st) = stdout st @ q"
      "attempted q = concat (map (\<lambda>v. if v = Clean (Join [dest, Base v]) then []
                                      else [(v, Clean (Join [dest, Base v]))]) vs)"
      using processJobs_no_rename_lines [of real X dest vs st] nr r by auto
    show ?thesis by (simp add: printed_def p q)
  qed
  from processJobs_simulate_frame [OF assms(1), of X dest vs st] 1 2 3 show ?thesis by blast
qed

text \<open>Copying \<open>/s/a.jpg\<close> and \<open>/s/b.jpg\<close> to \<open>/d\<close> without renaming.\<close>

theorem simulate_reports_mappings_witness:
  "simulate \<lparr>rename = False, move = False, simulate = True\<rparr>
   \<and> world (processJobs (\<lambda>bytes. None) \<lparr>rename = False, move = False, simulate = True\<rparr>
        ''/d'' [''/s/a.jpg'', ''/s/b.jpg''] exState) = exWorld
   \<and> reported (printed exState
        (processJobs (\<lambda>bytes. None) \<lparr>rename = False, move = False, simulate = True\<rparr>
           ''/d'' [''/s/a.jpg'', ''/s/b.jpg''] exState))
       = [(''/s/a.jpg'', ''/d/a.jpg''), (''/s/b.jpg'', ''/d/b.jpg'')]
   \<and> attempted (printed exState
        (processJobs (\<lambda>bytes. None) \<lparr>rename = False, move = False, simulate = False\<rparr>
           ''/d'' [''/s/a.jpg'', ''/s/b.jpg''] exState))
       = [(''/s/a.jpg'', ''/d/a.jpg''), (''/s/b.jpg'', ''/d/b.jpg'')]"
proof -
  let ?sim = "\<lparr>rename = False, move = False, simulate = True\<rparr>"
  let ?real = "\<lparr>rename = False, move = False, simulate = False\<rparr>"
  let ?vs = "[''/s/a.jpg'', ''/s/b.jpg'']"
  have s: "simulate ?sim" by simp
  have r: "?real = ?sim\<lparr>simulate := False\<rparr>" by simp
  have w: "world exState = exWorld" and o: "stdout exState = []" by (simp_all add: exState_def)
  have run: "processJobs (\<lambda>bytes. None) ?sim ''/d'' ?vs exState
             = exState\<lparr>stdout := [Mapping ''/s/a.jpg'' ''/d/a.jpg'',
                                    Mapping ''/s/b.jpg'' ''/d/b.jpg'']\<rparr>"
    by (simp add: processJobs_def processHashesJob_def destFileName_cases materialize_def
        println_def path_defs o)
  from simulate_reports_mappings [OF s r, of "\<lambda>bytes. None" "''/d''" ?vs exState "''/s/a.jpg''"]
  have "world (processJobs (\<lambda>bytes. None) ?sim ''/d'' ?vs exState) = exWorld"
    and "reported (printed exState (processJobs (\<lambda>bytes. None) ?sim ''/d'' ?vs exState))
         = attempted (printed exState (processJobs (\<lambda>bytes. None) ?real ''/d'' ?vs exState))"
    by (simp_all add: w)
  moreover have "reported (printed exState (processJobs (\<lambda>bytes. None) ?sim ''/d'' ?vs exState))
       = [(''/s/a.jpg'', ''/d/a.jpg''), (''/s/b.jpg'', ''/d/b.jpg'')]"
    by (simp add: run printed_def o)
  ultimately show ?thesis by simp
qed

lemma ex_time_b: "getFileTime (\<lambda>bytes. None) exWorld ''/s/b.jpg'' = (exTimeB, None, False)"
  by (simp add: getFileTime_def path_defs timeFormatLen_def osOpen_def resolve_def
      exifOf_def timesStat_def exWorld_def exFile_def)

lemma ex_format_b: "Format exTimeB = ''20191112T131415''"
  by code_simp

lemma ex_copy_a_over:
  "copyFile exWorld ''/s/a.jpg'' ''/d/20200102T030405 a.jpg'' = (None, exWorldOver)"
  by (simp add: ex_eval exWorldOver_def)

lemma ex_time_b_over:
  "getFileTime (\<lambda>bytes. None) exWorldOver ''/s/b.jpg'' = (exNow, None, False)"
  by (simp add: getFileTime_def path_defs timeFormatLen_def osOpen_def resolve_def
      exifOf_def timesStat_def exWorld_def exFile_def exWorldOver_def)

lemma ex_dest_a:
  "destFileName (\<lambda>bytes. None) \<lparr>rename = True, move = False, simulate = s\<rparr> ''/s/a.jpg''
     (exState\<lparr>stdout := ls\<rparr>)
   = (''20200102T030405 a.jpg'', exState\<lparr>stdout := ls\<rparr>)"
  by (simp add: destFileName_cases exState_def ex_time_a ex_format_a removeColons_def path_defs)

lemma ex_dest_b:
  "destFileName (\<lambda>bytes. None) \<lparr>rename = True, move = False, simulate = s\<rparr> ''/s/b.jpg''
     (exState\<lparr>stdout := ls\<rparr>)
   = (''20191112T131415 b.jpg'', exState\<lparr>stdout := ls\<rparr>)"
  by (simp add: destFileName_cases exState_def ex_time_b ex_format_b removeColons_def path_defs)

lemma ex_dest_b_over:
  "destFileName (\<lambda>bytes. None) \<lparr>rename = True, move = False, simulate = s\<rparr> ''/s/b.jpg''
     (exState\<lparr>world := exWorldOver, stdout := ls\<rparr>)
   = (''20210607T080910 b.jpg'', exState\<lparr>world := exWorldOver, stdout := ls\<rparr>)"
  by (simp add: destFileName_cases exState_def ex_time_b_over ex_format_now removeColons_def
      path_defs)

lemma ex_sim_run:
  "processJobs (\<lambda>bytes. None) \<lparr>rename = True, move = False, simulate = True\<rparr> ''/d''
     [''/s/a.jpg'', ''/s/b.jpg''] exState
   = exState\<lparr>stdout := [Mapping ''/s/a.jpg'' ''/d/20200102T030405 a.jpg'',
                          Mapping ''/s/b.jpg'' ''/d/20191112T131415 b.jpg'']\<rparr>"
proof -
  have e: "exState = exState\<lparr>stdout := []\<rparr>" by (simp add: exState_def)
  have 1: "processHashesJob (\<lambda>bytes. None) \<lparr>rename = True, move = False, simulate = True\<rparr>
             ''/d'' ''/s/a.jpg'' exState
           = exState\<lparr>stdout := [Mapping ''/s/a.jpg'' ''/d/20200102T030405 a.jpg'']\<rparr>"
    apply (subst e)
    apply (simp only: processHashesJob_def ex_dest_a)
    apply (simp add: materialize_def println_def path_defs)
    done
  have 2: "processHashesJob (\<lambda>bytes. None) \<lparr>rename = True, move = False, simulate = True\<rparr>
             ''/d'' ''/s/b.jpg''
             (exState\<lparr>stdout := [Mapping ''/s/a.jpg'' ''/d/20200102T030405 a.jpg'']\<rparr>)
           = exState\<lparr>stdout := [Mapping ''/s/a.jpg'' ''/d/20200102T030405 a.jpg'',
                          Mapping ''/s/b.jpg'' ''/d/20191112T131415 b.jpg'']\<rparr>"
    apply (simp only: processHashesJob_def ex_dest_b)
    apply (simp add: materialize_def println_def path_defs)
    done
  show ?thesis by (simp add: processJobs_def 1 2)
qed

lemma ex_real_run:
  "processJobs (\<lambda>bytes. None) \<lparr>rename = True, move = False, simulate = False\<rparr> ''/d''
     [''/s/a.jpg'', ''/s/b.jpg''] exState
   = exState\<lparr>world := exWorldOver\<lparr>fs_names := fs_names exWorldOver
                                        @ [(''/d/20210607T080910 b.jpg'', 2)]\<rparr>,
              stdout := [Copying ''/s/a.jpg'' ''/d/20200102T030405 a.jpg'',
                         Copying ''/s/b.jpg'' ''/d/20210607T080910 b.jpg'']\<rparr>"
proof -
  have e: "exState = exState\<lparr>stdout := []\<rparr>" by (simp add: exState_def)
  have w: "world exState = exWorld" by (simp add: exState_def)
  have 1: "processHashesJob (\<lambda>bytes. None) \<lparr>rename = True, move = False, simulate = False\<rparr>
             ''/d'' ''/s/a.jpg'' exState
           = exState\<lparr>world := exWorldOver,
                      stdout := [Copying ''/s/a.jpg'' ''/d/20200102T030405 a.jpg'']\<rparr>"
    apply (subst e)
    apply (simp only: processHashesJob_def ex_dest_a)
    apply (simp add: materialize_def println_def path_defs w ex_copy_a_over)
    done
  have c: "copyFile exWorldOver ''/s/b.jpg'' ''/d/20210607T080910 b.jpg''
           = (None, exWorldOver\<lparr>fs_names := fs_names exWorldOver
                                        @ [(''/d/20210607T080910 b.jpg'', 2)]\<rparr>)"
    by (simp add: ex_eval exWorldOver_def)
  have 2: "processHashesJob (\<lambda>bytes. None) \<lparr>rename = True, move = False, simulate = False\<rparr>
             ''/d'' ''/s/b.jpg''
             (exState\<lparr>world := exWorldOver,
                      stdout := [Copying ''/s/a.jpg'' ''/d/20200102T030405 a.jpg'']\<rparr>)
           = exState\<lparr>world := exWorldOver\<lparr>fs_names := fs_names exWorldOver
                                        @ [(''/d/20210607T080910 b.jpg'', 2)]\<rparr>,
              stdout := [Copying ''/s/a.jpg'' ''/d/20200102T030405 a.jpg'',
                         Copying ''/s/b.jpg'' ''/d/20210607T080910 b.jpg'']\<rparr>"
    apply (simp only: processHashesJob_def ex_dest_b_over)
    apply (simp add: materialize_def println_def path_defs c Let_def)
    done
  show ?thesis by (simp add: processJobs_def 1 2)
qed

text \<open>
  Claim C4 as stated compares whole runs for every input. With renaming, a
  run that is not simulated changes files that a later job takes its
  timestamp from. Here \<open>/d/20200102T030405 a.jpg\<close> exists and is a hard link to
  \<open>/s/b.jpg\<close>. The simulated run reports \<open>/s/b.jpg\<close> under its modification
  time of 2019. The real run first copies \<open>/s/a.jpg\<close> over that file, since
  the link fails on the existing name; \<open>/s/b.jpg\<close> is thereby modified at the
  clock's time, and its job materializes it under that time.
\<close>

theorem simulate_mappings_counterexample:
  "reported (printed exState
      (processJobs (\<lambda>bytes. None) \<lparr>rename = True, move = False, simulate = True\<rparr> ''/d''
         [''/s/a.jpg'', ''/s/b.jpg''] exState))
     = [(''/s/a.jpg'', ''/d/20200102T030405 a.jpg''),
        (''/s/b.jpg'', ''/d/20191112T131415 b.jpg'')]
   \<and> attempted (printed exState
      (processJobs (\<lambda>bytes. None) \<lparr>rename = True, move = False, simulate = False\<rparr> ''/d''
         [''/s/a.jpg'', ''/s/b.jpg''] exState))
     = [(''/s/a.jpg'', ''/d/20200102T030405 a.jpg''),
        (''/s/b.jpg'', ''/d/20210607T080910 b.jpg'')]
   \<and> set (reported (printed exState
      (processJobs (\<lambda>bytes. None) \<lparr>rename = True, move = False, simulate = True\<rparr> ''/d''
         [''/s/a.jpg'', ''/s/b.jpg''] exState)))
     \<noteq> set (attempted (printed exState
      (processJobs (\<lambda>bytes. None) \<lparr>rename = True, move = False, simulate = False\<rparr> ''/d''
         [''/s/a.jpg'', ''/s/b.jpg''] exState)))"
proof -
  have "stdout exState = []" by (simp add: exState_def)
  then show ?thesis by (simp add: ex_sim_run ex_real_run printed_def doubleton_eq_iff)
qed


subsection \<open>Two files for one destination\<close>
























end
